theory Spec2Isabelle
  imports Main "HOL-Library.Sublist"
begin

section \<open>Values of a row and how Python renders them\<close>

text \<open>
  The lookup scripts read rows of the table \<open>features\<close> through Python's \<open>sqlite3\<close>
  module. The fields of a record are strings, integers and booleans; SQLite stores a
  boolean as the integer 0 or 1, so a fetched column value is \<open>None\<close>, an \<open>int\<close> or
  a \<open>str\<close> (the storage classes NULL, INTEGER and TEXT; REAL and BLOB values are left
  out). Python integers are unbounded, hence \<open>int\<close>. Text is a list of characters, a
  character being a code point below 256.
\<close>

datatype sql_value = SqlNull | SqlInt int | SqlText string

definition digit_char :: "nat \<Rightarrow> char" where
  "digit_char n = ''0123456789'' ! (n mod 10)"

fun str_nat :: "nat \<Rightarrow> string" where
  "str_nat n = (if n < 10 then [digit_char n] else str_nat (n div 10) @ [digit_char n])"

declare str_nat.simps [simp del]

text \<open>\<open>str(i)\<close> for an integer: decimal digits, with a leading minus sign.\<close>

definition str_int :: "int \<Rightarrow> string" where
  "str_int i = (if i < 0 then CHR ''-'' # str_nat (nat (- i)) else str_nat (nat i))"

text \<open>The text an f-string puts in place of \<open>{v}\<close>, that is \<open>str(v)\<close>.\<close>

fun py_str :: "sql_value \<Rightarrow> string" where
  "py_str SqlNull = ''None''"
| "py_str (SqlInt i) = str_int i"
| "py_str (SqlText s) = s"

section \<open>JSON text as \<open>json.dumps\<close> writes it\<close>

text \<open>
  \<open>json.dumps(d, indent=2)\<close> with the default \<open>ensure_ascii=True\<close>: inside a string
  the quote, the backslash and the control characters with a short form are escaped with
  a backslash, every other character outside the printable ASCII range is written
  \<open>\u00XX\<close>. A dictionary is written one item per line, indented by two spaces, items
  separated by a comma, key and value by a colon and a space. \<open>None\<close> is \<open>null\<close>.
\<close>

definition newline :: char where
  "newline = CHR 0x0A"

definition dquote :: char where
  "dquote = CHR 0x22"

definition backslash :: char where
  "backslash = CHR 0x5C"

definition hex_char :: "nat \<Rightarrow> char" where
  "hex_char n = ''0123456789abcdef'' ! (n mod 16)"

definition json_escape :: "char \<Rightarrow> string" where
  "json_escape c =
     (if c = dquote then [backslash, dquote]
      else if c = backslash then [backslash, backslash]
      else if c = CHR 0x0A then [backslash, CHR ''n'']
      else if c = CHR 0x0D then [backslash, CHR ''r'']
      else if c = CHR 0x09 then [backslash, CHR ''t'']
      else if c = CHR 0x08 then [backslash, CHR ''b'']
      else if c = CHR 0x0C then [backslash, CHR ''f'']
      else if (of_char c :: nat) < 32 \<or> 126 < (of_char c :: nat)
        then [backslash, CHR ''u'', CHR ''0'', CHR ''0'',
              hex_char (of_char c div 16), hex_char (of_char c)]
      else [c])"

definition json_string :: "string \<Rightarrow> string" where
  "json_string s = dquote # concat (map json_escape s) @ [dquote]"

fun json_value :: "sql_value \<Rightarrow> string" where
  "json_value SqlNull = ''null''"
| "json_value (SqlInt i) = str_int i"
| "json_value (SqlText s) = json_string s"

fun join :: "string \<Rightarrow> string list \<Rightarrow> string" where
  "join sep [] = []"
| "join sep [x] = x"
| "join sep (x # y # ys) = x @ sep @ join sep (y # ys)"

definition json_item :: "string \<times> sql_value \<Rightarrow> string" where
  "json_item kv = ''  '' @ json_string (fst kv) @ '': '' @ json_value (snd kv)"

definition json_dumps :: "(string \<times> sql_value) list \<Rightarrow> string" where
  "json_dumps d =
     (if d = [] then ''{}''
      else ''{'' @ [newline] @ join ('','' @ [newline]) (map json_item d) @ [newline] @ ''}'')"

section \<open>The data store: an SQLite file holding the table \<open>features\<close>\<close>

text \<open>
  SQLite compares the names of tables and columns without regard to the case of the
  ASCII letters: a column declared \<open>STEPS\<close> is the column \<open>steps\<close>.
\<close>

definition ascii_lower :: "char \<Rightarrow> char" where
  "ascii_lower c =
     (case map_of (zip ''ABCDEFGHIJKLMNOPQRSTUVWXYZ'' ''abcdefghijklmnopqrstuvwxyz'') c of
        Some l \<Rightarrow> l
      | None \<Rightarrow> c)"

definition fold_name :: "string \<Rightarrow> string" where
  "fold_name n = map ascii_lower n"

text \<open>
  The affinity of a column follows from its declared type: text (\<open>TEXT\<close>,
  \<open>VARCHAR\<close>), numeric (\<open>INTEGER\<close>, \<open>REAL\<close>, \<open>NUMERIC\<close>) or none (\<open>BLOB\<close>, no
  type). It decides how a value is stored and how the column compares with a literal.
\<close>

datatype affinity = TextAffinity | NumericAffinity | NoAffinity

text \<open>
  A table has columns, named as declared, and rows. A row gives the value stored in
  each column, and the table the affinity of each column; both are looked up by the
  column's name in lower case. A database lists its tables by name. What lies at a
  location of the file system is one of: nothing yet (in a directory where a file can
  be created); something that cannot be opened (missing directory, permission denied);
  a file that is not an SQLite database (corrupt header); a database with nothing
  pending; or a database with recovery pending, that is a hot journal left by a writer
  that crashed or a write-ahead log not yet checkpointed, given by the content a reader
  sees once it is recovered.
\<close>

record table =
  col_names :: "string list"
  col_affinity :: "string \<Rightarrow> affinity"
  rows :: "(string \<Rightarrow> sql_value) list"

type_synonym database = "(string \<times> table) list"

datatype store_file =
    NoFile
  | Unopenable
  | NotADatabase
  | DbFile database
  | DbPending database

text \<open>The table of a database that a statement names.\<close>

definition find_table :: "database \<Rightarrow> string \<Rightarrow> table option" where
  "find_table db n = map_option snd (find (\<lambda>e. fold_name (fst e) = fold_name n) db)"

type_synonym filesystem = "string \<Rightarrow> store_file"

datatype py_error =
    OperationalError string
  | DatabaseError string
  | IndexError
  | FileNotFoundError
  | UnicodeDecodeError
  | OtherError string

text \<open>The calls a script makes on a store, in the order it makes them.\<close>

datatype event = Connect string | Execute string | Close string

text \<open>
  The state of one run of a script: the world outside (for the \<open>sqlite3\<close> scripts the
  file system), the text written to standard output, the handles that are open, and
  the calls made so far.
\<close>

record 'w proc =
  world :: 'w
  stdout :: string
  handles :: "string list"
  trace :: "event list"

definition init :: "'w \<Rightarrow> 'w proc" where
  "init w = \<lparr>world = w, stdout = [], handles = [], trace = []\<rparr>"

text \<open>
  A statement either completes with a value or raises; in both cases it leaves a state
  behind. An exception that nothing catches ends the script: what the run returns is
  then \<open>Inl\<close> of the exception, and the interpreter exits with status 1.
\<close>

type_synonym ('w, 'a) stmt = "'w proc \<Rightarrow> (py_error + 'a) \<times> 'w proc"

definition py_bind :: "('w, 'a) stmt \<Rightarrow> ('a \<Rightarrow> ('w, 'b) stmt) \<Rightarrow> ('w, 'b) stmt" where
  "py_bind m f s = (case m s of (Inl e, s') \<Rightarrow> (Inl e, s') | (Inr x, s') \<Rightarrow> f x s')"

definition py_seq :: "('w, unit) stmt \<Rightarrow> ('w, 'b) stmt \<Rightarrow> ('w, 'b) stmt" where
  "py_seq m n = py_bind m (\<lambda>_. n)"

definition py_raise :: "py_error \<Rightarrow> ('w, 'a) stmt" where
  "py_raise e s = (Inl e, s)"

definition py_return :: "'a \<Rightarrow> ('w, 'a) stmt" where
  "py_return x s = (Inr x, s)"

definition exit_code :: "(py_error + unit) \<times> 'w proc \<Rightarrow> nat" where
  "exit_code r = (case fst r of Inl e \<Rightarrow> 1 | Inr u \<Rightarrow> 0)"

text \<open>\<open>print(text)\<close> writes the text and a newline to standard output.\<close>

definition print :: "string \<Rightarrow> ('w, unit) stmt" where
  "print text s = (Inr (), s\<lparr>stdout := stdout s @ text @ [newline]\<rparr>)"

subsection \<open>The \<open>sqlite3\<close> calls the scripts make\<close>

text \<open>
  \<open>sqlite3.connect(path)\<close> opens the file for reading and writing and creates it, as
  an empty database, when it does not exist; it raises \<open>OperationalError\<close> when the
  file cannot be opened. The file's content is not read until a statement is executed.
  The connection is identified by its path.
\<close>

definition sqlite3_connect :: "string \<Rightarrow> (filesystem, string) stmt" where
  "sqlite3_connect path s =
     (let s' = s\<lparr>trace := trace s @ [Connect path]\<rparr> in
      case world s path of
        Unopenable \<Rightarrow> (Inl (OperationalError ''unable to open database file''), s')
      | NoFile \<Rightarrow>
          (Inr path, s'\<lparr>world := (world s)(path := DbFile []),
                          handles := path # handles s\<rparr>)
      | NotADatabase \<Rightarrow> (Inr path, s'\<lparr>handles := path # handles s\<rparr>)
      | DbFile db \<Rightarrow> (Inr path, s'\<lparr>handles := path # handles s\<rparr>)
      | DbPending db \<Rightarrow> (Inr path, s'\<lparr>handles := path # handles s\<rparr>))"

text \<open>
  The statement every script executes has the shape
  \<open>SELECT c1, ..., cn FROM t WHERE id = k\<close>.
\<close>

record select_query =
  sel_cols :: "string list"
  sel_table :: string
  sel_id :: int

text \<open>A column of the table that a statement names, whatever the case of its letters.\<close>

definition has_column :: "table \<Rightarrow> string \<Rightarrow> bool" where
  "has_column t c = (fold_name c \<in> set (map fold_name (col_names t)))"

text \<open>
  The stored value that \<open>id = k\<close> matches. Before the comparison the literal \<open>k\<close>
  takes the affinity of the column: in a column of text affinity it is compared as the
  text of its decimal digits, so the stored text \<open>30\<close> matches \<open>id = 30\<close>; in any
  other column the stored integer \<open>k\<close> matches and no text does.
\<close>

fun id_key :: "affinity \<Rightarrow> int \<Rightarrow> sql_value" where
  "id_key TextAffinity k = SqlText (str_int k)"
| "id_key NumericAffinity k = SqlInt k"
| "id_key NoAffinity k = SqlInt k"

text \<open>
  Preparing the statement fails when a column it names (the selected ones, left to
  right, then \<open>id\<close>) is not a column of the table; the message gives the name as the
  statement writes it. Otherwise the result holds, for every row whose \<open>id\<close> matches
  the identifier asked for, the selected columns in the order selected.
\<close>

definition select_rows :: "table \<Rightarrow> select_query \<Rightarrow> py_error + sql_value list list" where
  "select_rows t q =
     (case find (\<lambda>c. \<not> has_column t c) (sel_cols q @ [''id'']) of
        Some c \<Rightarrow> Inl (OperationalError (''no such column: '' @ c))
      | None \<Rightarrow>
          Inr (map (\<lambda>r. map (\<lambda>c. r (fold_name c)) (sel_cols q))
                 (filter (\<lambda>r. r ''id'' = id_key (col_affinity t ''id'') (sel_id q))
                    (rows t))))"

text \<open>The statement run on a database that has been read.\<close>

definition run_select :: "database \<Rightarrow> select_query \<Rightarrow> py_error + sql_value list list" where
  "run_select db q =
     (case find_table db (sel_table q) of
        None \<Rightarrow> Inl (OperationalError (''no such table: '' @ sel_table q))
      | Some t \<Rightarrow> select_rows t q)"

text \<open>
  \<open>cursor.execute(sql)\<close> reads the file. On a database with recovery pending the
  read recovers it first, and the lookup leaves the recovered database behind: a hot
  journal is rolled back by the first read, a write-ahead log is checkpointed when the
  connection goes away.
\<close>

definition execute :: "string \<Rightarrow> select_query \<Rightarrow> (filesystem, sql_value list list) stmt" where
  "execute conn q s =
     (let s' = s\<lparr>trace := trace s @ [Execute conn]\<rparr> in
      case world s conn of
        DbFile db \<Rightarrow> (run_select db q, s')
      | DbPending db \<Rightarrow> (run_select db q, s'\<lparr>world := (world s)(conn := DbFile db)\<rparr>)
      | NotADatabase \<Rightarrow> (Inl (DatabaseError ''file is not a database''), s')
      | NoFile \<Rightarrow> (Inl (OperationalError ''unable to open database file''), s')
      | Unopenable \<Rightarrow> (Inl (OperationalError ''unable to open database file''), s'))"

text \<open>
  \<open>conn.cursor()\<close> has no effect of its own: the cursor is the result of the statement
  it executes. \<open>cursor.fetchone()\<close> is the first row of the result, or \<open>None\<close>.
\<close>

definition fetchone :: "sql_value list list \<Rightarrow> sql_value list option" where
  "fetchone rs = (case rs of [] \<Rightarrow> None | r # _ \<Rightarrow> Some r)"

text \<open>The truth value of a fetched row in \<open>if row:\<close>. \<open>None\<close> and the empty tuple are false.\<close>

definition truthy :: "sql_value list option \<Rightarrow> bool" where
  "truthy row = (case row of None \<Rightarrow> False | Some r \<Rightarrow> r \<noteq> [])"

text \<open>\<open>row[i]\<close> raises \<open>IndexError\<close> past the end of the tuple.\<close>

definition row_get :: "sql_value list \<Rightarrow> nat \<Rightarrow> py_error + sql_value" where
  "row_get r i = (if i < length r then Inr (r ! i) else Inl IndexError)"

text \<open>\<open>conn.close()\<close> releases the handle.\<close>

definition conn_close :: "string \<Rightarrow> ('w, unit) stmt" where
  "conn_close conn s =
     (Inr (), s\<lparr>handles := remove1 conn (handles s), trace := trace s @ [Close conn]\<rparr>)"

text \<open>The statement \<open>print(f"label{row[i]}")\<close>.\<close>

definition print_field :: "string \<Rightarrow> sql_value list \<Rightarrow> nat \<Rightarrow> ('w, unit) stmt" where
  "print_field label r i =
     (case row_get r i of Inl e \<Rightarrow> py_raise e | Inr v \<Rightarrow> print (label @ py_str v))"

text \<open>The dictionary literal \<open>{k0: row[0], k1: row[1], ...}\<close>, built left to right.\<close>

fun dict_of_row :: "string list \<Rightarrow> sql_value list \<Rightarrow> nat \<Rightarrow> py_error + (string \<times> sql_value) list" where
  "dict_of_row [] r i = Inr []"
| "dict_of_row (k # ks) r i =
     (case row_get r i of
        Inl e \<Rightarrow> Inl e
      | Inr v \<Rightarrow> (case dict_of_row ks r (Suc i) of Inl e \<Rightarrow> Inl e | Inr d \<Rightarrow> Inr ((k, v) # d)))"

definition py_lift :: "py_error + 'a \<Rightarrow> ('w, 'a) stmt" where
  "py_lift r = (case r of Inl e \<Rightarrow> py_raise e | Inr x \<Rightarrow> py_return x)"

text \<open>The statement \<open>if row: found(row) else: absent\<close>.\<close>

definition if_row :: "sql_value list option \<Rightarrow> (sql_value list \<Rightarrow> ('w, 'a) stmt) \<Rightarrow> ('w, 'a) stmt \<Rightarrow> ('w, 'a) stmt" where
  "if_row row found absent =
     (case row of None \<Rightarrow> absent | Some r \<Rightarrow> if truthy (Some r) then found r else absent)"

section \<open>The lookup scripts\<close>

subsection \<open>\<open>query_feature.py\<close>\<close>

definition query_feature_db :: string where
  "query_feature_db =
     ''C:'' @ [backslash] @ ''Users'' @ [backslash] @ ''207ds'' @ [backslash] @ ''Desktop''
       @ [backslash] @ ''Apps'' @ [backslash] @ ''mlodash-new'' @ [backslash]
       @ ''mlo-dash-new'' @ [backslash] @ ''features.db''"

definition query_feature_select :: select_query where
  "query_feature_select =
     \<lparr>sel_cols = [''id'', ''category'', ''name'', ''description'', ''steps''],
      sel_table = ''features'', sel_id = 242\<rparr>"

definition query_feature :: "(filesystem, unit) stmt" where
  "query_feature =
     py_bind (sqlite3_connect query_feature_db) (\<lambda>conn.
     py_bind (execute conn query_feature_select) (\<lambda>cursor.
     py_seq
       (if_row (fetchone cursor)
          (\<lambda>result.
             py_seq (print_field ''id: '' result 0)
            (py_seq (print_field ''category: '' result 1)
            (py_seq (print_field ''name: '' result 2)
            (py_seq (print_field ''description: '' result 3)
                    (print_field ''steps: '' result 4)))))
          (print ''No feature found with id=242''))
       (conn_close conn)))"

subsection \<open>\<open>get_feature_30.py\<close>\<close>

definition features_db :: string where
  "features_db = ''features.db''"

definition get_feature_30_select :: select_query where
  "get_feature_30_select =
     \<lparr>sel_cols = [''id'', ''priority'', ''category'', ''name'', ''description'', ''steps''],
      sel_table = ''features'', sel_id = 30\<rparr>"

definition get_feature_30 :: "(filesystem, unit) stmt" where
  "get_feature_30 =
     py_bind (sqlite3_connect features_db) (\<lambda>conn.
     py_bind (execute conn get_feature_30_select) (\<lambda>cur.
     py_seq
       (if_row (fetchone cur)
          (\<lambda>row.
             py_seq (print_field ''ID: '' row 0)
            (py_seq (print_field ''Priority: '' row 1)
            (py_seq (print_field ''Category: '' row 2)
            (py_seq (print_field ''Name: '' row 3)
            (py_seq (print_field ''Description: '' row 4)
                    (print_field ''Steps: '' row 5))))))
          (print ''Feature #30 not found''))
       (conn_close conn)))"

subsection \<open>\<open>get-feature-242.py\<close>\<close>

definition get_feature_242_select :: select_query where
  "get_feature_242_select =
     \<lparr>sel_cols = [''id'', ''category'', ''name'', ''description'', ''steps'', ''passes'',
                  ''in_progress''],
      sel_table = ''features'', sel_id = 242\<rparr>"

definition get_feature_242 :: "(filesystem, unit) stmt" where
  "get_feature_242 =
     py_bind (sqlite3_connect features_db) (\<lambda>conn.
     py_bind (execute conn get_feature_242_select) (\<lambda>cursor.
     py_seq
       (if_row (fetchone cursor)
          (\<lambda>row.
             py_bind
               (py_lift (dict_of_row
                  [''id'', ''category'', ''name'', ''description'', ''steps'', ''passes'',
                   ''in_progress''] row 0))
               (\<lambda>feature. print (json_dumps feature)))
          (print ''Feature not found''))
       (conn_close conn)))"

subsection \<open>\<open>get-feature-74.py\<close>\<close>

text \<open>
  This script goes through \<open>api.database\<close>, which is not among the sources. What it
  calls there is taken as a parameter: \<open>create_database(PROJECT_DIR)\<close>, which returns
  the engine and the session maker or raises and may change the world;
  \<open>session.query(Feature).filter(Feature.id == k).first()\<close>, which returns a feature
  or \<open>None\<close>, or raises; the truth value of a feature object; and
  \<open>feature.to_json(indent=2)\<close>. The import of the module is taken to succeed.
  \<open>session_maker()\<close> opens a session and \<open>session.close()\<close> releases it; neither
  raises.
\<close>

record ('w, 'f) database_api =
  create_database :: "'w \<Rightarrow> (py_error + unit) \<times> 'w"
  query_first :: "int \<Rightarrow> 'w \<Rightarrow> (py_error + 'f option) \<times> 'w"
  feature_true :: "'f \<Rightarrow> bool"
  to_json :: "'f \<Rightarrow> py_error + string"

definition on_world :: "('w \<Rightarrow> (py_error + 'a) \<times> 'w) \<Rightarrow> ('w, 'a) stmt" where
  "on_world f s = (case f (world s) of (r, w') \<Rightarrow> (r, s\<lparr>world := w'\<rparr>))"

definition session_maker :: "('w, string) stmt" where
  "session_maker s =
     (Inr ''session'',
      s\<lparr>handles := ''session'' # handles s, trace := trace s @ [Connect ''session'']\<rparr>)"

text \<open>
  \<open>try: body finally: fin\<close> runs \<open>fin\<close> however \<open>body\<close> ends, then goes on as
  \<open>body\<close> ended (unless \<open>fin\<close> itself raises).
\<close>

definition try_finally :: "('w, 'a) stmt \<Rightarrow> ('w, unit) stmt \<Rightarrow> ('w, 'a) stmt" where
  "try_finally body fin s =
     (case body s of
        (r, s') \<Rightarrow> (case fin s' of (Inl e, s'') \<Rightarrow> (Inl e, s'') | (Inr u, s'') \<Rightarrow> (r, s'')))"

definition get_feature_74 :: "('w, 'f) database_api \<Rightarrow> ('w, unit) stmt" where
  "get_feature_74 api =
     py_bind (on_world (create_database api)) (\<lambda>made.
     py_bind session_maker (\<lambda>session.
     try_finally
       (py_bind (on_world (query_first api 74)) (\<lambda>feature.
          case feature of
            None \<Rightarrow> print ''Feature #74 not found''
          | Some f \<Rightarrow>
              if feature_true api f then py_bind (py_lift (to_json api f)) print
              else print ''Feature #74 not found''))
       (conn_close session)))"

section \<open>\<open>fix-imports.py\<close>\<close>

text \<open>
  The world of this script is the files by path: no file, a file whose bytes do not
  decode in the encoding of the locale, or a file with the characters it decodes to. A
  file that exists can be opened for reading and for writing.
\<close>

datatype text_file = Missing | Undecodable | Text string

type_synonym textfiles = "string \<Rightarrow> text_file"

definition carriage_return :: char where
  "carriage_return = CHR 0x0D"

text \<open>
  Reading in text mode with the default \<open>newline=None\<close>: a carriage return followed by
  a newline, and a carriage return alone, are handed over as one newline.
\<close>

fun universal_newlines :: "string \<Rightarrow> string" where
  "universal_newlines [] = []"
| "universal_newlines [c] = (if c = carriage_return then [newline] else [c])"
| "universal_newlines (c # d # ds) =
     (if c = carriage_return \<and> d = newline then newline # universal_newlines ds
      else if c = carriage_return then newline # universal_newlines (d # ds)
      else c # universal_newlines (d # ds))"

text \<open>
  Writing in text mode with the default \<open>newline=None\<close>: each newline is written as
  \<open>os.linesep\<close>, the line end of the platform.
\<close>

definition write_newlines :: "string \<Rightarrow> string \<Rightarrow> string" where
  "write_newlines linesep text = concat (map (\<lambda>c. if c = newline then linesep else [c]) text)"

text \<open>
  \<open>f.readlines()\<close>: the lines of the text, each with its newline (the last one may lack
  it).
\<close>

fun readlines :: "string \<Rightarrow> string list" where
  "readlines [] = []"
| "readlines (c # cs) =
     (if c = newline then [c] # readlines cs
      else (case readlines cs of [] \<Rightarrow> [[c]] | l # ls \<Rightarrow> (c # l) # ls))"

text \<open>\<open>with open(path, 'r') as f: lines = f.readlines()\<close>\<close>

definition read_file :: "string \<Rightarrow> (textfiles, string list) stmt" where
  "read_file path s =
     (case world s path of
        Missing \<Rightarrow> (Inl FileNotFoundError, s)
      | Undecodable \<Rightarrow> (Inl UnicodeDecodeError, s)
      | Text content \<Rightarrow> (Inr (readlines (universal_newlines content)), s))"

text \<open>
  \<open>with open(path, 'w') as f: f.writelines(lines)\<close>: the file holds the lines, one
  after the other, with the line ends of the platform.
\<close>

definition write_file :: "string \<Rightarrow> string \<Rightarrow> string list \<Rightarrow> (textfiles, unit) stmt" where
  "write_file linesep path ls s =
     (Inr (), s\<lparr>world := (world s)(path := Text (write_newlines linesep (concat ls)))\<rparr>)"

text \<open>\<open>pat in line\<close>: the pattern occurs somewhere in the line.\<close>

fun contains :: "string \<Rightarrow> string \<Rightarrow> bool" where
  "contains pat [] = (pat = [])"
| "contains pat (c # cs) = (prefix pat (c # cs) \<or> contains pat cs)"

text \<open>\<open>lines.insert(k, x)\<close> for \<open>0 \<le> k\<close>; past the end it appends.\<close>

definition list_insert :: "nat \<Rightarrow> 'a \<Rightarrow> 'a list \<Rightarrow> 'a list" where
  "list_insert k x xs = take k xs @ [x] @ drop k xs"

text \<open>
  \<open>for i, line in enumerate(lines): if pat in line: lines.insert(i + 1, new); break\<close>,
  from index \<open>i\<close> on.
\<close>

function insert_loop :: "string \<Rightarrow> string \<Rightarrow> string list \<Rightarrow> nat \<Rightarrow> string list" where
  "insert_loop pat new ls i =
     (if i < length ls then
        (if contains pat (ls ! i) then list_insert (i + 1) new ls
         else insert_loop pat new ls (i + 1))
      else ls)"
  by pat_completeness auto
termination
  by (relation "measure (\<lambda>(pat, new, ls, i). length ls - i)") auto

declare insert_loop.simps [simp del]

definition client_details :: string where
  "client_details = ''frontend/src/pages/ClientDetails.tsx''"

definition progress_pat :: string where
  "progress_pat = ''  Progress,''"

definition box_line :: string where
  "box_line = ''  Box,'' @ [newline]"

definition dates_pat :: string where
  "dates_pat = ''from '' @ [CHR 0x27] @ ''@mantine/dates'' @ [CHR 0x27] @ '';''"

definition dropzone_line :: string where
  "dropzone_line =
     ''import { Dropzone, FileWithPath } from '' @ [CHR 0x27] @ ''@mantine/dropzone''
       @ [CHR 0x27] @ '';'' @ [newline]"

text \<open>The script, on a platform whose \<open>os.linesep\<close> is \<open>linesep\<close>.\<close>

definition fix_imports :: "string \<Rightarrow> (textfiles, unit) stmt" where
  "fix_imports linesep =
     py_bind (read_file client_details) (\<lambda>lines0.
     let lines1 = insert_loop progress_pat box_line lines0 0;
         lines2 = insert_loop dates_pat dropzone_line lines1 0
     in py_seq (write_file linesep client_details lines2)
               (print ''Imports added successfully''))"

section \<open>Notions the properties are stated with\<close>

text \<open>
  The three \<open>sqlite3\<close> scripts have one shape: connect, execute one \<open>SELECT\<close>, fetch
  one row, print, close. \<open>lookup_script\<close> is that shape; each script is an instance
  of it (lemmas \<open>query_feature_shape\<close>, \<open>get_feature_30_shape\<close>,
  \<open>get_feature_242_shape\<close>).
\<close>

definition lookup_script ::
  "string \<Rightarrow> select_query \<Rightarrow> (sql_value list \<Rightarrow> (filesystem, unit) stmt) \<Rightarrow>
   (filesystem, unit) stmt \<Rightarrow> (filesystem, unit) stmt" where
  "lookup_script path q found absent =
     py_bind (sqlite3_connect path) (\<lambda>conn.
     py_bind (execute conn q) (\<lambda>cursor.
     py_seq (if_row (fetchone cursor) found absent) (conn_close conn)))"

text \<open>The columns a statement names are all columns of the table.\<close>

definition columns_known :: "table \<Rightarrow> select_query \<Rightarrow> bool" where
  "columns_known t q = (list_all (has_column t) (sel_cols q @ [''id'']))"

text \<open>The database a lookup reads at a location, when there is one to read.\<close>

definition readable_db :: "store_file \<Rightarrow> database option" where
  "readable_db f =
     (case f of
        DbFile db \<Rightarrow> Some db
      | DbPending db \<Rightarrow> Some db
      | NoFile \<Rightarrow> None
      | Unopenable \<Rightarrow> None
      | NotADatabase \<Rightarrow> None)"

text \<open>
  The store at \<open>path\<close> is a database whose table has the columns asked for, identifiers
  are unique in it, and \<open>r\<close> is its row with the identifier asked for.
\<close>

definition has_record :: "filesystem \<Rightarrow> string \<Rightarrow> select_query \<Rightarrow> (string \<Rightarrow> sql_value) \<Rightarrow> bool" where
  "has_record fs path q r =
     (case readable_db (fs path) of
        Some db \<Rightarrow>
          (case find_table db (sel_table q) of
             Some t \<Rightarrow>
               columns_known t q \<and> distinct (map (\<lambda>x. x ''id'') (rows t)) \<and>
               r \<in> set (rows t) \<and> r ''id'' = id_key (col_affinity t ''id'') (sel_id q)
           | None \<Rightarrow> False)
      | None \<Rightarrow> False)"

text \<open>
  The store at \<open>path\<close> is a database whose table has the columns asked for, and no row
  of it has the identifier asked for.
\<close>

definition no_record :: "filesystem \<Rightarrow> string \<Rightarrow> select_query \<Rightarrow> bool" where
  "no_record fs path q =
     (case readable_db (fs path) of
        Some db \<Rightarrow>
          (case find_table db (sel_table q) of
             Some t \<Rightarrow>
               columns_known t q \<and>
               list_all (\<lambda>x. x ''id'' \<noteq> id_key (col_affinity t ''id'') (sel_id q)) (rows t)
           | None \<Rightarrow> False)
      | None \<Rightarrow> False)"

text \<open>
  The specification's \<open>SourceUnavailable\<close> condition: the data store cannot be opened
  (missing file, permission denied, corrupt header).
\<close>

definition source_unavailable :: "filesystem \<Rightarrow> string \<Rightarrow> bool" where
  "source_unavailable fs path =
     (case fs path of
        NoFile \<Rightarrow> True
      | Unopenable \<Rightarrow> True
      | NotADatabase \<Rightarrow> True
      | DbFile db \<Rightarrow> False
      | DbPending db \<Rightarrow> False)"

text \<open>
  The specification's \<open>SchemaMismatch\<close> condition: the store opens and a requested
  field does not exist in it.
\<close>

definition schema_mismatch :: "filesystem \<Rightarrow> string \<Rightarrow> select_query \<Rightarrow> bool" where
  "schema_mismatch fs path q =
     (case readable_db (fs path) of
        Some db \<Rightarrow>
          (case find_table db (sel_table q) of Some t \<Rightarrow> \<not> columns_known t q | None \<Rightarrow> True)
      | None \<Rightarrow> False)"

text \<open>
  What a lookup leaves at the store's location, by what lay there: an empty database
  where there was no file, the recovered database where recovery was pending, and
  otherwise what lay there.
\<close>

definition settled :: "store_file \<Rightarrow> store_file" where
  "settled f =
     (case f of
        NoFile \<Rightarrow> DbFile []
      | DbPending db \<Rightarrow> DbFile db
      | Unopenable \<Rightarrow> Unopenable
      | NotADatabase \<Rightarrow> NotADatabase
      | DbFile db \<Rightarrow> DbFile db)"

text \<open>
  What a lookup leaves as it is: a database with nothing pending, a file that is not a
  database, and something that cannot be opened.
\<close>

definition stable :: "store_file \<Rightarrow> bool" where
  "stable f =
     (case f of
        NoFile \<Rightarrow> False
      | DbPending db \<Rightarrow> False
      | Unopenable \<Rightarrow> True
      | NotADatabase \<Rightarrow> True
      | DbFile db \<Rightarrow> True)"

text \<open>
  The state of a run once \<open>connect\<close> and \<open>execute\<close> have been called on a location
  that could be opened.
\<close>

definition after_execute :: "filesystem \<Rightarrow> string \<Rightarrow> filesystem proc" where
  "after_execute fs path =
     \<lparr>world = fs(path := settled (fs path)), stdout = [], handles = [path],
      trace = [Connect path, Execute path]\<rparr>"

text \<open>A run ended by an exception that nothing caught.\<close>

definition uncaught :: "(py_error + unit) \<times> 'w proc \<Rightarrow> bool" where
  "uncaught r = (case fst r of Inl e \<Rightarrow> True | Inr u \<Rightarrow> False)"

text \<open>A run that failed without having made any call on the store.\<close>

definition failed_before_store_access :: "(py_error + unit) \<times> 'w proc \<Rightarrow> bool" where
  "failed_before_store_access r = (uncaught r \<and> trace (snd r) = [])"

text \<open>
  What \<open>fix-imports.py\<close> is meant to do, in the words of its comments: add the new line
  after the first line the pattern occurs in, and nothing when it occurs in none.
\<close>

fun insert_after_first :: "string \<Rightarrow> string \<Rightarrow> string list \<Rightarrow> string list" where
  "insert_after_first pat new [] = []"
| "insert_after_first pat new (l # ls) =
     (if contains pat l then l # new # ls else l # insert_after_first pat new ls)"

text \<open>
  Running a script twice in a row: the second run starts from the files the first run
  left. Of each run, how it ended and what it wrote to standard output.
\<close>

definition run_twice ::
  "('w, unit) stmt \<Rightarrow> 'w \<Rightarrow> ((py_error + unit) \<times> string) \<times> ((py_error + unit) \<times> string)" where
  "run_twice script w =
     (case script (init w) of
        (r1, s1) \<Rightarrow>
          (case script (init (world s1)) of (r2, s2) \<Rightarrow> ((r1, stdout s1), (r2, stdout s2))))"

text \<open>The lines Python's text layer reads from the characters of a file.\<close>

definition file_lines :: "string \<Rightarrow> string list" where
  "file_lines content = readlines (universal_newlines content)"

text \<open>A line that ends with its newline and has no other.\<close>

definition terminated :: "string \<Rightarrow> bool" where
  "terminated l = (l \<noteq> [] \<and> last l = newline \<and> newline \<notin> set (butlast l))"

section \<open>A concrete store\<close>

text \<open>
  The store of the specification's example: a table \<open>features\<close> with the record 30
  (priority high, category core, name Widget), and a record 242 beside it.
\<close>

definition example_row_30 :: "string \<Rightarrow> sql_value" where
  "example_row_30 c =
     (if c = ''id'' then SqlInt 30
      else if c = ''priority'' then SqlText ''high''
      else if c = ''category'' then SqlText ''core''
      else if c = ''name'' then SqlText ''Widget''
      else if c = ''description'' then SqlText ''desc''
      else if c = ''steps'' then SqlText ''step1;step2''
      else if c = ''passes'' then SqlInt 0
      else if c = ''in_progress'' then SqlInt 0
      else SqlNull)"

definition example_row_242 :: "string \<Rightarrow> sql_value" where
  "example_row_242 c =
     (if c = ''id'' then SqlInt 242
      else if c = ''priority'' then SqlInt 3
      else if c = ''category'' then SqlText ''ui''
      else if c = ''name'' then SqlText ''Upload''
      else if c = ''description'' then SqlNull
      else if c = ''steps'' then SqlText (''[''  @ [dquote] @ ''open'' @ [dquote] @ '']'')
      else if c = ''passes'' then SqlInt 1
      else if c = ''in_progress'' then SqlInt 0
      else SqlNull)"

definition example_columns :: "string list" where
  "example_columns =
     [''id'', ''priority'', ''category'', ''name'', ''description'', ''steps'', ''passes'',
      ''in_progress'']"

text \<open>The identifier and the two flags are numeric columns, the priority has no type.\<close>

definition example_affinity :: "string \<Rightarrow> affinity" where
  "example_affinity c =
     (if c = ''id'' \<or> c = ''passes'' \<or> c = ''in_progress'' then NumericAffinity
      else if c = ''priority'' then NoAffinity
      else TextAffinity)"

definition example_table :: table where
  "example_table =
     \<lparr>col_names = example_columns, col_affinity = example_affinity,
      rows = [example_row_30, example_row_242]\<rparr>"

text \<open>The same table without any record.\<close>

definition empty_table :: table where
  "empty_table = \<lparr>col_names = example_columns, col_affinity = example_affinity, rows = []\<rparr>"

text \<open>A table of an older schema, without the column \<open>steps\<close>.\<close>

definition old_table :: table where
  "old_table = \<lparr>col_names = [''id'', ''category'', ''name'', ''description''],
                  col_affinity = example_affinity,
                  rows = [example_row_30, example_row_242]\<rparr>"

text \<open>The example table with its columns declared in capitals.\<close>

definition capitals_table :: table where
  "capitals_table =
     \<lparr>col_names = [''ID'', ''PRIORITY'', ''CATEGORY'', ''NAME'', ''DESCRIPTION'', ''STEPS'',
                   ''PASSES'', ''IN_PROGRESS''],
      col_affinity = example_affinity,
      rows = [example_row_30, example_row_242]\<rparr>"

text \<open>
  A table whose identifier column is declared \<open>TEXT\<close>; its one record has the text
  \<open>30\<close> for identifier.
\<close>

definition text_row_30 :: "string \<Rightarrow> sql_value" where
  "text_row_30 c = (if c = ''id'' then SqlText ''30'' else example_row_30 c)"

definition text_id_table :: table where
  "text_id_table =
     \<lparr>col_names = example_columns,
      col_affinity = (\<lambda>c. if c = ''id'' then TextAffinity else example_affinity c),
      rows = [text_row_30]\<rparr>"

text \<open>Both locations the scripts read hold the given table.\<close>

definition store_with :: "table \<Rightarrow> filesystem" where
  "store_with t =
     (\<lambda>p. if p = features_db \<or> p = query_feature_db then DbFile [(''features'', t)]
          else NoFile)"

text \<open>Both locations hold the given table under the name \<open>Features\<close>.\<close>

definition store_with_Features :: "table \<Rightarrow> filesystem" where
  "store_with_Features t =
     (\<lambda>p. if p = features_db \<or> p = query_feature_db then DbFile [(''Features'', t)]
          else NoFile)"

text \<open>Both locations hold the given table in a database with recovery pending.\<close>

definition pending_store_with :: "table \<Rightarrow> filesystem" where
  "pending_store_with t =
     (\<lambda>p. if p = features_db \<or> p = query_feature_db then DbPending [(''features'', t)]
          else NoFile)"

text \<open>Nothing lies at any location yet.\<close>

definition no_store :: filesystem where
  "no_store = (\<lambda>p. NoFile)"

text \<open>Nothing can be opened at any location.\<close>

definition unopenable_store :: filesystem where
  "unopenable_store = (\<lambda>p. Unopenable)"

text \<open>Both locations hold a file that is not a database.\<close>

definition corrupt_store :: filesystem where
  "corrupt_store =
     (\<lambda>p. if p = features_db \<or> p = query_feature_db then NotADatabase else NoFile)"

text \<open>Both locations hold a database without the table \<open>features\<close>.\<close>

definition store_without_table :: filesystem where
  "store_without_table =
     (\<lambda>p. if p = features_db \<or> p = query_feature_db then DbFile [] else NoFile)"

text \<open>
  An instance of what \<open>get-feature-74.py\<close> calls: the world is the list of the
  identifiers stored, \<open>create_database\<close> and the query change nothing, a feature is
  its identifier, and \<open>to_json\<close> writes it as a number.
\<close>

definition example_api :: "(int list, int) database_api" where
  "example_api =
     \<lparr>create_database = (\<lambda>w. (Inr (), w)),
      query_first = (\<lambda>k w. (Inr (if k \<in> set w then Some k else None), w)),
      feature_true = (\<lambda>f. True),
      to_json = (\<lambda>f. Inr (str_int f))\<rparr>"

text \<open>An instance whose \<open>create_database\<close> raises.\<close>

definition failing_api :: "(int list, int) database_api" where
  "failing_api =
     \<lparr>create_database = (\<lambda>w. (Inl (OperationalError ''unable to open database file''), w)),
      query_first = (\<lambda>k w. (Inr None, w)),
      feature_true = (\<lambda>f. True),
      to_json = (\<lambda>f. Inr (str_int f))\<rparr>"

text \<open>An instance whose query raises.\<close>

definition broken_api :: "(int list, int) database_api" where
  "broken_api =
     \<lparr>create_database = (\<lambda>w. (Inr (), w)),
      query_first = (\<lambda>k w. (Inl (OperationalError ''no such column: features.steps''), w)),
      feature_true = (\<lambda>f. True),
      to_json = (\<lambda>f. Inr (str_int f))\<rparr>"

text \<open>
  A file for \<open>fix-imports.py\<close> in which both patterns occur, the first one twice, and
  a file in which neither occurs.
\<close>

definition example_tsx :: string where
  "example_tsx =
     ''import {'' @ [newline] @
     ''  Progress,'' @ [newline] @
     ''} from '' @ [CHR 0x27] @ ''@mantine/core'' @ [CHR 0x27] @ '';'' @ [newline] @
     ''import { X } from '' @ [CHR 0x27] @ ''@mantine/dates'' @ [CHR 0x27] @ '';'' @ [newline] @
     ''  Progress,'' @ [newline]"

definition example_tsx_patched :: string where
  "example_tsx_patched =
     ''import {'' @ [newline] @
     ''  Progress,'' @ [newline] @
     ''  Box,'' @ [newline] @
     ''} from '' @ [CHR 0x27] @ ''@mantine/core'' @ [CHR 0x27] @ '';'' @ [newline] @
     ''import { X } from '' @ [CHR 0x27] @ ''@mantine/dates'' @ [CHR 0x27] @ '';'' @ [newline] @
     ''import { Dropzone, FileWithPath } from '' @ [CHR 0x27] @ ''@mantine/dropzone''
       @ [CHR 0x27] @ '';'' @ [newline] @
     ''  Progress,'' @ [newline]"

definition plain_tsx :: string where
  "plain_tsx = ''const x = 1;'' @ [newline] @ ''export default x;''"

text \<open>A file with the line ends of Windows, and the same file patched there.\<close>

definition windows_tsx :: string where
  "windows_tsx =
     ''  Progress,'' @ [carriage_return, newline] @ ''  Text,'' @ [carriage_return, newline]"

definition windows_tsx_patched :: string where
  "windows_tsx_patched =
     ''  Progress,'' @ [carriage_return, newline] @ ''  Box,'' @ [carriage_return, newline]
       @ ''  Text,'' @ [carriage_return, newline]"

text \<open>The file system of the script when its file holds the given characters.\<close>

definition tsx_file :: "string \<Rightarrow> textfiles" where
  "tsx_file content = (\<lambda>p. if p = client_details then Text content else Missing)"

section \<open>How a run of a lookup script unfolds\<close>

text \<open>Each script is an instance of the common shape.\<close>

lemma query_feature_shape:
  "query_feature = lookup_script query_feature_db query_feature_select
     (\<lambda>result.
             py_seq (print_field ''id: '' result 0)
            (py_seq (print_field ''category: '' result 1)
            (py_seq (print_field ''name: '' result 2)
            (py_seq (print_field ''description: '' result 3)
                    (print_field ''steps: '' result 4)))))
     (print ''No feature found with id=242'')"
  by (simp add: query_feature_def lookup_script_def)

lemma get_feature_30_shape:
  "get_feature_30 = lookup_script features_db get_feature_30_select
     (\<lambda>row.
             py_seq (print_field ''ID: '' row 0)
            (py_seq (print_field ''Priority: '' row 1)
            (py_seq (print_field ''Category: '' row 2)
            (py_seq (print_field ''Name: '' row 3)
            (py_seq (print_field ''Description: '' row 4)
                    (print_field ''Steps: '' row 5))))))
     (print ''Feature #30 not found'')"
  by (simp add: get_feature_30_def lookup_script_def)

lemma get_feature_242_shape:
  "get_feature_242 = lookup_script features_db get_feature_242_select
     (\<lambda>row.
             py_bind
               (py_lift (dict_of_row
                  [''id'', ''category'', ''name'', ''description'', ''steps'', ''passes'',
                   ''in_progress''] row 0))
               (\<lambda>feature. print (json_dumps feature)))
     (print ''Feature not found'')"
  by (simp add: get_feature_242_def lookup_script_def)

text \<open>The names the scripts write are in lower case already.\<close>

lemma fold_names [simp]:
  "fold_name ''id'' = ''id''"
  "fold_name ''priority'' = ''priority''"
  "fold_name ''category'' = ''category''"
  "fold_name ''name'' = ''name''"
  "fold_name ''description'' = ''description''"
  "fold_name ''steps'' = ''steps''"
  "fold_name ''passes'' = ''passes''"
  "fold_name ''in_progress'' = ''in_progress''"
  "fold_name ''features'' = ''features''"
  by (simp_all add: fold_name_def ascii_lower_def)

text \<open>Names written in capitals are the same names.\<close>

lemma fold_capitals [simp]:
  "fold_name ''ID'' = ''id''"
  "fold_name ''PRIORITY'' = ''priority''"
  "fold_name ''CATEGORY'' = ''category''"
  "fold_name ''NAME'' = ''name''"
  "fold_name ''DESCRIPTION'' = ''description''"
  "fold_name ''STEPS'' = ''steps''"
  "fold_name ''PASSES'' = ''passes''"
  "fold_name ''IN_PROGRESS'' = ''in_progress''"
  "fold_name ''Features'' = ''features''"
  by (simp_all add: fold_name_def ascii_lower_def)

text \<open>A run, by what lies at the location.\<close>

lemma lookup_script_unopenable:
  "fs path = Unopenable \<Longrightarrow>
   lookup_script path q found absent (init fs) =
     (Inl (OperationalError ''unable to open database file''),
      \<lparr>world = fs, stdout = [], handles = [], trace = [Connect path]\<rparr>)"
  by (simp add: lookup_script_def py_bind_def sqlite3_connect_def init_def Let_def)

lemma lookup_script_not_a_database:
  "fs path = NotADatabase \<Longrightarrow>
   lookup_script path q found absent (init fs) =
     (Inl (DatabaseError ''file is not a database''), after_execute fs path)"
  by (auto simp: lookup_script_def py_bind_def sqlite3_connect_def execute_def init_def Let_def
      after_execute_def settled_def)

lemma lookup_script_no_file:
  "fs path = NoFile \<Longrightarrow>
   lookup_script path q found absent (init fs) =
     (Inl (OperationalError (''no such table: '' @ sel_table q)), after_execute fs path)"
  by (simp add: lookup_script_def py_bind_def sqlite3_connect_def execute_def init_def Let_def
      after_execute_def settled_def run_select_def find_table_def)

lemma lookup_script_readable:
  assumes "readable_db (fs path) = Some db"
  shows "lookup_script path q found absent (init fs) =
     (case run_select db q of
        Inl e \<Rightarrow> (Inl e, after_execute fs path)
      | Inr rs \<Rightarrow>
          py_seq (if_row (fetchone rs) found absent) (conn_close path) (after_execute fs path))"
proof (cases "fs path")
  case (DbFile d)
  with assms have "d = db" by (simp add: readable_db_def)
  with DbFile have "fs(path := DbFile db) = fs" by auto
  with DbFile \<open>d = db\<close> show ?thesis
    by (simp add: lookup_script_def py_bind_def sqlite3_connect_def execute_def init_def
        Let_def after_execute_def settled_def split: sum.splits)
next
  case (DbPending d)
  with assms have "d = db" by (simp add: readable_db_def)
  with DbPending show ?thesis
    by (simp add: lookup_script_def py_bind_def sqlite3_connect_def execute_def init_def
        Let_def after_execute_def settled_def split: sum.splits)
qed (use assms in \<open>simp_all add: readable_db_def\<close>)

lemma readable_cases:
  obtains (unopenable) "fs path = Unopenable"
  | (not_a_database) "fs path = NotADatabase"
  | (no_file) "fs path = NoFile"
  | (readable) db where "readable_db (fs path) = Some db"
  by (cases "fs path") (auto simp: readable_db_def)

lemma lookup_script_run:
  "lookup_script path q found absent (init fs) =
     (case fs path of
        Unopenable \<Rightarrow>
          (Inl (OperationalError ''unable to open database file''),
           \<lparr>world = fs, stdout = [], handles = [], trace = [Connect path]\<rparr>)
      | NotADatabase \<Rightarrow>
          (Inl (DatabaseError ''file is not a database''), after_execute fs path)
      | NoFile \<Rightarrow>
          (Inl (OperationalError (''no such table: '' @ sel_table q)), after_execute fs path)
      | DbFile db \<Rightarrow>
          (case run_select db q of
             Inl e \<Rightarrow> (Inl e, after_execute fs path)
           | Inr rs \<Rightarrow>
               py_seq (if_row (fetchone rs) found absent) (conn_close path)
                 (after_execute fs path))
      | DbPending db \<Rightarrow>
          (case run_select db q of
             Inl e \<Rightarrow> (Inl e, after_execute fs path)
           | Inr rs \<Rightarrow>
               py_seq (if_row (fetchone rs) found absent) (conn_close path)
                 (after_execute fs path)))"
proof (cases "fs path")
  case NoFile
  then show ?thesis by (simp add: lookup_script_no_file)
next
  case Unopenable
  then show ?thesis by (simp add: lookup_script_unopenable)
next
  case NotADatabase
  then show ?thesis by (simp add: lookup_script_not_a_database)
next
  case (DbFile db)
  then have "readable_db (fs path) = Some db" by (simp add: readable_db_def)
  from lookup_script_readable [of fs path db, OF this] DbFile show ?thesis by simp
next
  case (DbPending db)
  then have "readable_db (fs path) = Some db" by (simp add: readable_db_def)
  from lookup_script_readable [of fs path db, OF this] DbPending show ?thesis by simp
qed

text \<open>What the \<open>SELECT\<close> returns on a table that has, or lacks, the columns it names.\<close>

lemma select_rows_known:
  "columns_known t q \<Longrightarrow>
   select_rows t q =
     Inr (map (\<lambda>r. map (\<lambda>c. r (fold_name c)) (sel_cols q))
            (filter (\<lambda>r. r ''id'' = id_key (col_affinity t ''id'') (sel_id q)) (rows t)))"
proof -
  assume "columns_known t q"
  then have "find (\<lambda>c. \<not> has_column t c) (sel_cols q @ [''id'']) = None"
    unfolding columns_known_def find_None_iff list_all_iff by blast
  then show ?thesis by (simp add: select_rows_def)
qed

lemma select_rows_unknown:
  "\<not> columns_known t q \<Longrightarrow> \<exists>c. select_rows t q = Inl (OperationalError (''no such column: '' @ c))"
proof -
  assume "\<not> columns_known t q"
  then have "find (\<lambda>c. \<not> has_column t c) (sel_cols q @ [''id'']) \<noteq> None"
    unfolding columns_known_def find_None_iff list_all_iff by blast
  then obtain c where "find (\<lambda>c. \<not> has_column t c) (sel_cols q @ [''id'']) = Some c"
    by blast
  then show ?thesis by (simp add: select_rows_def)
qed

lemma filter_unique:
  "distinct (map f xs) \<Longrightarrow> r \<in> set xs \<Longrightarrow> f r = k \<Longrightarrow> filter (\<lambda>x. f x = k) xs = [r]"
proof (induction xs)
  case Nil
  then show ?case by simp
next
  case (Cons x xs)
  show ?case
  proof (cases "x = r")
    case True
    from Cons.prems have "f x \<notin> f ` set xs" by simp
    with True Cons.prems have "\<forall>y\<in>set xs. f y \<noteq> k" by (metis imageI)
    then have "filter (\<lambda>x. f x = k) xs = []" by (simp add: filter_empty_conv)
    with True Cons.prems show ?thesis by simp
  next
    case False
    with Cons.prems have "r \<in> set xs" "f x \<noteq> k" by auto
    with Cons show ?thesis by simp
  qed
qed

lemma filter_none:
  "list_all (\<lambda>x. f x \<noteq> k) xs \<Longrightarrow> filter (\<lambda>x. f x = k) xs = []"
  by (simp add: filter_empty_conv list_all_iff)

lemma has_record_rows:
  assumes "has_record fs path q r"
  obtains db where "readable_db (fs path) = Some db"
    "run_select db q = Inr [map (\<lambda>c. r (fold_name c)) (sel_cols q)]"
proof -
  from assms obtain db where db: "readable_db (fs path) = Some db"
    by (auto simp: has_record_def split: option.splits)
  with assms obtain t where t: "find_table db (sel_table q) = Some t"
    by (auto simp: has_record_def split: option.splits)
  with db assms have k: "columns_known t q" and d: "distinct (map (\<lambda>x. x ''id'') (rows t))"
    and r: "r \<in> set (rows t)" "r ''id'' = id_key (col_affinity t ''id'') (sel_id q)"
    by (auto simp: has_record_def)
  from d r have "filter (\<lambda>x. x ''id'' = id_key (col_affinity t ''id'') (sel_id q)) (rows t) = [r]"
    using filter_unique
      [of "\<lambda>x. x ''id''" "rows t" r "id_key (col_affinity t ''id'') (sel_id q)"]
    by simp
  with k t have "run_select db q = Inr [map (\<lambda>c. r (fold_name c)) (sel_cols q)]"
    by (simp add: run_select_def select_rows_known)
  with db show ?thesis by (rule that)
qed

lemma no_record_rows:
  assumes "no_record fs path q"
  obtains db where "readable_db (fs path) = Some db" "run_select db q = Inr []"
proof -
  from assms obtain db where db: "readable_db (fs path) = Some db"
    by (auto simp: no_record_def split: option.splits)
  with assms obtain t where t: "find_table db (sel_table q) = Some t"
    by (auto simp: no_record_def split: option.splits)
  with db assms have k: "columns_known t q"
    and n: "list_all (\<lambda>x. x ''id'' \<noteq> id_key (col_affinity t ''id'') (sel_id q)) (rows t)"
    by (auto simp: no_record_def)
  from n have "filter (\<lambda>x. x ''id'' = id_key (col_affinity t ''id'') (sel_id q)) (rows t) = []"
    by (rule filter_none)
  with k t have "run_select db q = Inr []"
    by (simp add: run_select_def select_rows_known)
  with db show ?thesis by (rule that)
qed

lemma lookup_script_found:
  assumes "has_record fs path q r"
  shows "lookup_script path q found absent (init fs) =
     py_seq (if_row (Some (map (\<lambda>c. r (fold_name c)) (sel_cols q))) found absent)
       (conn_close path) (after_execute fs path)"
proof -
  from assms obtain db where "readable_db (fs path) = Some db"
    "run_select db q = Inr [map (\<lambda>c. r (fold_name c)) (sel_cols q)]"
    by (rule has_record_rows)
  then show ?thesis
    by (simp add: lookup_script_readable [of fs path db] fetchone_def)
qed

lemma lookup_script_absent:
  assumes "no_record fs path q"
  shows "lookup_script path q found absent (init fs) =
     (case absent (after_execute fs path) of
        (Inl e, s) \<Rightarrow> (Inl e, s) | (Inr u, s) \<Rightarrow> conn_close path s)"
proof -
  from assms obtain db where "readable_db (fs path) = Some db" "run_select db q = Inr []"
    by (rule no_record_rows)
  then show ?thesis
    by (simp add: lookup_script_readable [of fs path db] fetchone_def if_row_def py_seq_def
        py_bind_def)
qed

text \<open>The three scripts on a store that has the record, and on one that has not.\<close>

lemma query_feature_found:
  assumes "has_record fs query_feature_db query_feature_select r"
  shows "query_feature (init fs) =
    (Inr (),
     \<lparr>world = fs(query_feature_db := settled (fs query_feature_db)),
      stdout = ''id: '' @ py_str (r ''id'') @ [newline]
             @ ''category: '' @ py_str (r ''category'') @ [newline]
             @ ''name: '' @ py_str (r ''name'') @ [newline]
             @ ''description: '' @ py_str (r ''description'') @ [newline]
             @ ''steps: '' @ py_str (r ''steps'') @ [newline],
      handles = [],
      trace = [Connect query_feature_db, Execute query_feature_db, Close query_feature_db]\<rparr>)"
  unfolding query_feature_shape lookup_script_found [OF assms]
  by (simp add: query_feature_select_def if_row_def truthy_def py_seq_def py_bind_def
      print_field_def row_get_def print_def conn_close_def after_execute_def)

lemma query_feature_absent:
  assumes "no_record fs query_feature_db query_feature_select"
  shows "query_feature (init fs) =
    (Inr (),
     \<lparr>world = fs(query_feature_db := settled (fs query_feature_db)),
      stdout = ''No feature found with id=242'' @ [newline], handles = [],
      trace = [Connect query_feature_db, Execute query_feature_db, Close query_feature_db]\<rparr>)"
  unfolding query_feature_shape lookup_script_absent [OF assms]
  by (simp add: print_def conn_close_def after_execute_def)

lemma get_feature_30_found:
  assumes "has_record fs features_db get_feature_30_select r"
  shows "get_feature_30 (init fs) =
    (Inr (),
     \<lparr>world = fs(features_db := settled (fs features_db)),
      stdout = ''ID: '' @ py_str (r ''id'') @ [newline]
             @ ''Priority: '' @ py_str (r ''priority'') @ [newline]
             @ ''Category: '' @ py_str (r ''category'') @ [newline]
             @ ''Name: '' @ py_str (r ''name'') @ [newline]
             @ ''Description: '' @ py_str (r ''description'') @ [newline]
             @ ''Steps: '' @ py_str (r ''steps'') @ [newline],
      handles = [],
      trace = [Connect features_db, Execute features_db, Close features_db]\<rparr>)"
  unfolding get_feature_30_shape lookup_script_found [OF assms]
  by (simp add: get_feature_30_select_def if_row_def truthy_def py_seq_def py_bind_def
      print_field_def row_get_def print_def conn_close_def after_execute_def)

lemma get_feature_30_absent:
  assumes "no_record fs features_db get_feature_30_select"
  shows "get_feature_30 (init fs) =
    (Inr (),
     \<lparr>world = fs(features_db := settled (fs features_db)),
      stdout = ''Feature #30 not found'' @ [newline], handles = [],
      trace = [Connect features_db, Execute features_db, Close features_db]\<rparr>)"
  unfolding get_feature_30_shape lookup_script_absent [OF assms]
  by (simp add: print_def conn_close_def after_execute_def)

lemma get_feature_242_found:
  assumes "has_record fs features_db get_feature_242_select r"
  shows "get_feature_242 (init fs) =
    (Inr (),
     \<lparr>world = fs(features_db := settled (fs features_db)),
      stdout = json_dumps
                 [(''id'', r ''id''), (''category'', r ''category''), (''name'', r ''name''),
                  (''description'', r ''description''), (''steps'', r ''steps''),
                  (''passes'', r ''passes''), (''in_progress'', r ''in_progress'')]
               @ [newline],
      handles = [],
      trace = [Connect features_db, Execute features_db, Close features_db]\<rparr>)"
  unfolding get_feature_242_shape lookup_script_found [OF assms]
  by (simp add: get_feature_242_select_def if_row_def truthy_def py_seq_def py_bind_def
      py_lift_def py_return_def row_get_def print_def conn_close_def after_execute_def)

lemma get_feature_242_absent:
  assumes "no_record fs features_db get_feature_242_select"
  shows "get_feature_242 (init fs) =
    (Inr (),
     \<lparr>world = fs(features_db := settled (fs features_db)),
      stdout = ''Feature not found'' @ [newline], handles = [],
      trace = [Connect features_db, Execute features_db, Close features_db]\<rparr>)"
  unfolding get_feature_242_shape lookup_script_absent [OF assms]
  by (simp add: print_def conn_close_def after_execute_def)

lemmas example_defs =
  store_with_def store_with_Features_def pending_store_with_def example_table_def
  empty_table_def old_table_def capitals_table_def text_id_table_def text_row_30_def
  example_columns_def example_affinity_def example_row_30_def example_row_242_def
  features_db_def query_feature_db_def query_feature_select_def get_feature_30_select_def
  get_feature_242_select_def columns_known_def has_column_def readable_db_def find_table_def
  no_store_def store_without_table_def unopenable_store_def corrupt_store_def

lemmas render_defs =
  str_int_def str_nat.simps digit_char_def json_dumps_def json_item_def json_string_def
  json_escape_def hex_char_def newline_def dquote_def backslash_def

subsection \<open>The file system after a run\<close>

text \<open>The scripts write to standard output and to nothing else of the world.\<close>

lemma print_field_world [simp]: "world (snd (print_field label r i s)) = world s"
  by (simp add: print_field_def py_raise_def print_def split: sum.splits)

lemma py_seq_world:
  assumes "\<And>s. world (snd (m s)) = world s" "\<And>s. world (snd (n s)) = world s"
  shows "world (snd (py_seq m n s)) = world s"
  using assms by (simp add: py_seq_def py_bind_def split: prod.splits sum.splits) (metis snd_conv)

lemma py_bind_world:
  assumes "\<And>s. world (snd (m s)) = world s" "\<And>x s. world (snd (f x s)) = world s"
  shows "world (snd (py_bind m f s)) = world s"
  using assms by (simp add: py_bind_def split: prod.splits sum.splits) (metis snd_conv)

lemma if_row_world:
  assumes "\<And>r s. world (snd (found r s)) = world s" "\<And>s. world (snd (absent s)) = world s"
  shows "world (snd (if_row row found absent s)) = world s"
  using assms by (simp add: if_row_def split: option.splits)

lemma print_world [simp]: "world (snd (print text s)) = world s"
  by (simp add: print_def)

lemma conn_close_world [simp]: "world (snd (conn_close c s)) = world s"
  by (simp add: conn_close_def)

lemma py_lift_world [simp]: "world (snd (py_lift r s)) = world s"
  by (simp add: py_lift_def py_raise_def py_return_def split: sum.splits)

lemma settled_idem [simp]: "settled (settled f) = settled f"
  by (cases f) (simp_all add: settled_def)

lemma settled_fixed:
  "f \<noteq> NoFile \<Longrightarrow> (\<And>db. f \<noteq> DbPending db) \<Longrightarrow> settled f = f"
  by (cases f) (auto simp: settled_def)

lemma after_execute_settled [simp]:
  "after_execute (fs(path := settled (fs path))) path = after_execute fs path"
  by (simp add: after_execute_def)

text \<open>
  After a run the location holds what \<open>settled\<close> says, and nothing else of the file
  system has changed.
\<close>

lemma lookup_script_world:
  assumes "\<And>r s. world (snd (found r s)) = world s" "\<And>s. world (snd (absent s)) = world s"
  shows "world (snd (lookup_script path q found absent (init fs))) =
     fs(path := settled (fs path))"
proof (cases rule: readable_cases [of fs path])
  case unopenable
  then have "fs(path := Unopenable) = fs" by auto
  with unopenable show ?thesis
    by (simp add: lookup_script_unopenable settled_def)
next
  case not_a_database
  then show ?thesis
    by (simp add: lookup_script_not_a_database after_execute_def)
next
  case no_file
  then show ?thesis
    by (simp add: lookup_script_no_file after_execute_def)
next
  case (readable db)
  have body: "\<And>rs s. world (snd (py_seq (if_row (fetchone rs) found absent) (conn_close path) s)) = world s"
    by (intro py_seq_world if_row_world assms conn_close_world)
  show ?thesis
    by (simp add: lookup_script_readable [of fs path db, OF readable] body after_execute_def
        split: sum.splits)
qed

lemma query_feature_world:
  "world (snd (query_feature (init fs))) =
     fs(query_feature_db := settled (fs query_feature_db))"
  unfolding query_feature_shape
  by (intro lookup_script_world py_seq_world print_field_world print_world)

lemma get_feature_30_world:
  "world (snd (get_feature_30 (init fs))) = fs(features_db := settled (fs features_db))"
  unfolding get_feature_30_shape
  by (intro lookup_script_world py_seq_world print_field_world print_world)

lemma get_feature_242_world:
  "world (snd (get_feature_242 (init fs))) = fs(features_db := settled (fs features_db))"
  unfolding get_feature_242_shape
  by (intro lookup_script_world py_bind_world py_lift_world print_world)

text \<open>A run on the file system a run has left goes as that run went.\<close>

lemma lookup_script_settled:
  "lookup_script path q found absent (init (fs(path := settled (fs path)))) =
   lookup_script path q found absent (init fs)"
proof (cases rule: readable_cases [of fs path])
  case unopenable
  then have "fs(path := settled (fs path)) = fs" by (auto simp: settled_def)
  then show ?thesis by simp
next
  case not_a_database
  then have "fs(path := settled (fs path)) = fs" by (auto simp: settled_def)
  then show ?thesis by simp
next
  case no_file
  then have "readable_db ((fs(path := settled (fs path))) path) = Some []"
    by (simp add: settled_def readable_db_def)
  from lookup_script_readable [of "fs(path := settled (fs path))" path "[]", OF this]
  have "lookup_script path q found absent (init (fs(path := settled (fs path)))) =
      (Inl (OperationalError (''no such table: '' @ sel_table q)), after_execute fs path)"
    by (simp add: run_select_def find_table_def)
  with lookup_script_no_file [of fs path q found absent, OF no_file]
  show ?thesis by simp
next
  case (readable db)
  then have "readable_db ((fs(path := settled (fs path))) path) = Some db"
    by (cases "fs path") (simp_all add: settled_def readable_db_def)
  from lookup_script_readable [of "fs(path := settled (fs path))" path db, OF this]
    lookup_script_readable [of fs path db, OF readable]
  show ?thesis by (simp split: sum.splits)
qed

lemma lookup_script_rerun:
  assumes "\<And>r s. world (snd (found r s)) = world s" "\<And>s. world (snd (absent s)) = world s"
  shows "fst (run_twice (lookup_script path q found absent) fs) =
         snd (run_twice (lookup_script path q found absent) fs)"
proof -
  have "world (snd (lookup_script path q found absent (init fs))) =
      fs(path := settled (fs path))"
    using assms by (rule lookup_script_world)
  then have "lookup_script path q found absent
      (init (world (snd (lookup_script path q found absent (init fs))))) =
      lookup_script path q found absent (init fs)"
    by (simp add: lookup_script_settled)
  then show ?thesis
    by (auto simp: run_twice_def split: prod.splits)
qed

text \<open>\<open>get-feature-74.py\<close> when the query returns \<open>None\<close>.\<close>

lemma get_feature_74_absent:
  assumes "create_database api w = (Inr (), w1)" "query_first api 74 w1 = (Inr None, w2)"
  shows "get_feature_74 api (init w) =
    (Inr (),
     \<lparr>world = w2, stdout = ''Feature #74 not found'' @ [newline], handles = [],
      trace = [Connect ''session'', Close ''session'']\<rparr>)"
  using assms
  by (simp add: get_feature_74_def py_bind_def on_world_def session_maker_def try_finally_def
      init_def print_def conn_close_def)

text \<open>Three of the four absence messages hold the identifier asked for.\<close>

lemma absence_messages_name_identifier:
  "contains (str_int 242) (''No feature found with id=242'' @ [newline]) \<and>
   contains (str_int 30) (''Feature #30 not found'' @ [newline]) \<and>
   contains (str_int 74) (''Feature #74 not found'' @ [newline])"
  by (simp add: render_defs)

subsection \<open>Runs that raise and runs that do not\<close>

text \<open>Runs that end with an exception, and runs on a store that opens and has the columns.\<close>

lemma after_execute_fields [simp]:
  "stdout (after_execute fs path) = []"
  "handles (after_execute fs path) = [path]"
  "trace (after_execute fs path) = [Connect path, Execute path]"
  "world (after_execute fs path) = fs(path := settled (fs path))"
  by (simp_all add: after_execute_def)

lemma lookup_script_source_unavailable:
  assumes "source_unavailable fs path"
  shows "fst (lookup_script path q found absent (init fs)) \<in>
           {Inl (OperationalError ''unable to open database file''),
            Inl (OperationalError (''no such table: '' @ sel_table q)),
            Inl (DatabaseError ''file is not a database'')}"
    and "stdout (snd (lookup_script path q found absent (init fs))) = []"
  using assms
  by (cases "fs path";
      simp add: source_unavailable_def lookup_script_unopenable lookup_script_no_file
        lookup_script_not_a_database)+

lemma lookup_script_schema_mismatch:
  assumes "schema_mismatch fs path q"
  shows "\<exists>msg. lookup_script path q found absent (init fs) =
           (Inl (OperationalError msg), after_execute fs path)"
proof -
  from assms obtain db where db: "readable_db (fs path) = Some db"
    by (auto simp: schema_mismatch_def split: option.splits)
  show ?thesis
  proof (cases "find_table db (sel_table q)")
    case None
    with db show ?thesis
      by (simp add: lookup_script_readable [of fs path db, OF db] run_select_def)
  next
    case (Some t)
    with db assms have "\<not> columns_known t q"
      by (simp add: schema_mismatch_def)
    then obtain c where "select_rows t q = Inl (OperationalError (''no such column: '' @ c))"
      using select_rows_unknown by blast
    with Some show ?thesis
      by (simp add: lookup_script_readable [of fs path db, OF db] run_select_def)
  qed
qed

lemma uncaught_Inl [simp]: "uncaught (Inl e, s)"
  by (simp add: uncaught_def)

lemma uncaught_Inr [simp]: "\<not> uncaught (Inr u, s)"
  by (simp add: uncaught_def)

lemma exit_code_Inl [simp]: "exit_code (Inl e, s) = 1"
  by (simp add: exit_code_def)

lemma exit_code_Inr [simp]: "exit_code (Inr u, s) = 0"
  by (simp add: exit_code_def)

lemma uncaught_iff: "uncaught r \<longleftrightarrow> (\<exists>e. fst r = Inl e)"
  by (cases r; cases "fst r") (auto simp: uncaught_def)

lemma exit_code_uncaught: "exit_code r = (if uncaught r then 1 else 0)"
  by (simp add: exit_code_def uncaught_def split: sum.splits)

lemma lookup_script_unavailable_uncaught:
  assumes "source_unavailable fs path"
  shows "uncaught (lookup_script path q found absent (init fs))"
  using lookup_script_source_unavailable(1) [OF assms, where q = q and found = found and absent = absent]
  by (auto simp: uncaught_iff)

lemma lookup_script_mismatch_uncaught:
  assumes "schema_mismatch fs path q"
  shows "uncaught (lookup_script path q found absent (init fs))"
  using lookup_script_schema_mismatch [OF assms, where found = found and absent = absent]
  by (auto simp: uncaught_iff)

lemma store_ok_cases:
  assumes "\<not> source_unavailable fs path" "\<not> schema_mismatch fs path q"
  obtains db t where "readable_db (fs path) = Some db" "find_table db (sel_table q) = Some t"
    "columns_known t q"
proof -
  from assms(1) obtain db where db: "readable_db (fs path) = Some db"
    by (cases "fs path") (auto simp: source_unavailable_def readable_db_def)
  with assms(2) obtain t where "find_table db (sel_table q) = Some t" "columns_known t q"
    by (auto simp: schema_mismatch_def split: option.splits)
  with db show ?thesis by (rule that)
qed

lemma lookup_script_ok:
  assumes "readable_db (fs path) = Some db" "find_table db (sel_table q) = Some t"
    "columns_known t q"
  shows "lookup_script path q found absent (init fs) =
     py_seq
       (if_row (case filter (\<lambda>r. r ''id'' = id_key (col_affinity t ''id'') (sel_id q)) (rows t) of
                  [] \<Rightarrow> None | r # rest \<Rightarrow> Some (map (\<lambda>c. r (fold_name c)) (sel_cols q)))
          found absent)
       (conn_close path) (after_execute fs path)"
  using assms(2,3)
  by (simp add: lookup_script_readable [of fs path db, OF assms(1)] run_select_def
      select_rows_known fetchone_def split: list.splits)

lemmas body_defs =
  if_row_def truthy_def py_seq_def py_bind_def print_field_def row_get_def
  print_def conn_close_def py_lift_def py_return_def py_raise_def

lemma query_feature_ok:
  assumes "\<not> source_unavailable fs query_feature_db"
    "\<not> schema_mismatch fs query_feature_db query_feature_select"
  shows "\<not> uncaught (query_feature (init fs)) \<and> handles (snd (query_feature (init fs))) = []"
proof -
  from assms obtain db t where *: "readable_db (fs query_feature_db) = Some db"
    "find_table db (sel_table query_feature_select) = Some t"
    "columns_known t query_feature_select"
    by (rule store_ok_cases)
  show ?thesis
    unfolding query_feature_shape
      lookup_script_ok [of fs query_feature_db db query_feature_select t, OF *]
    by (simp add: body_defs query_feature_select_def split: list.splits)
qed

lemma get_feature_30_ok:
  assumes "\<not> source_unavailable fs features_db"
    "\<not> schema_mismatch fs features_db get_feature_30_select"
  shows "\<not> uncaught (get_feature_30 (init fs)) \<and> handles (snd (get_feature_30 (init fs))) = []"
proof -
  from assms obtain db t where *: "readable_db (fs features_db) = Some db"
    "find_table db (sel_table get_feature_30_select) = Some t"
    "columns_known t get_feature_30_select"
    by (rule store_ok_cases)
  show ?thesis
    unfolding get_feature_30_shape
      lookup_script_ok [of fs features_db db get_feature_30_select t, OF *]
    by (simp add: body_defs get_feature_30_select_def split: list.splits)
qed

lemma get_feature_242_ok:
  assumes "\<not> source_unavailable fs features_db"
    "\<not> schema_mismatch fs features_db get_feature_242_select"
  shows "\<not> uncaught (get_feature_242 (init fs)) \<and> handles (snd (get_feature_242 (init fs))) = []"
proof -
  from assms obtain db t where *: "readable_db (fs features_db) = Some db"
    "find_table db (sel_table get_feature_242_select) = Some t"
    "columns_known t get_feature_242_select"
    by (rule store_ok_cases)
  show ?thesis
    unfolding get_feature_242_shape
      lookup_script_ok [of fs features_db db get_feature_242_select t, OF *]
    by (simp add: body_defs get_feature_242_select_def split: list.splits)
qed

subsection \<open>\<open>get-feature-74.py\<close> in full\<close>

text \<open>Every way a run of \<open>get-feature-74.py\<close> can go.\<close>

lemma get_feature_74_run:
  "get_feature_74 api (init w) =
     (case create_database api w of
        (Inl e, w1) \<Rightarrow> (Inl e, \<lparr>world = w1, stdout = [], handles = [], trace = []\<rparr>)
      | (Inr made, w1) \<Rightarrow>
          (case query_first api 74 w1 of
             (Inl e, w2) \<Rightarrow>
               (Inl e, \<lparr>world = w2, stdout = [], handles = [],
                        trace = [Connect ''session'', Close ''session'']\<rparr>)
           | (Inr feature, w2) \<Rightarrow>
               (case (case feature of
                        None \<Rightarrow> Inr ''Feature #74 not found''
                      | Some f \<Rightarrow> if feature_true api f then to_json api f
                                  else Inr ''Feature #74 not found'') of
                  Inl e \<Rightarrow>
                    (Inl e, \<lparr>world = w2, stdout = [], handles = [],
                             trace = [Connect ''session'', Close ''session'']\<rparr>)
                | Inr text \<Rightarrow>
                    (Inr (), \<lparr>world = w2, stdout = text @ [newline], handles = [],
                              trace = [Connect ''session'', Close ''session'']\<rparr>))))"
  by (simp add: get_feature_74_def py_bind_def on_world_def session_maker_def try_finally_def
      init_def print_def conn_close_def py_lift_def py_raise_def py_return_def
      split: prod.splits sum.splits option.splits)

lemma get_feature_74_releases_session:
  "handles (snd (get_feature_74 api (init w))) = []"
  by (simp add: get_feature_74_run split: prod.splits sum.splits option.splits)

subsection \<open>Exit status of the \<open>sqlite3\<close> scripts\<close>

text \<open>The exit status of the three \<open>sqlite3\<close> scripts, by what lies at the location.\<close>

lemma has_record_store_ok:
  "has_record fs path q r \<Longrightarrow> \<not> source_unavailable fs path \<and> \<not> schema_mismatch fs path q"
  by (cases "fs path")
    (auto simp: has_record_def source_unavailable_def schema_mismatch_def readable_db_def
      split: option.splits)

lemma no_record_store_ok:
  "no_record fs path q \<Longrightarrow> \<not> source_unavailable fs path \<and> \<not> schema_mismatch fs path q"
  by (cases "fs path")
    (auto simp: no_record_def source_unavailable_def schema_mismatch_def readable_db_def
      split: option.splits)

lemma query_feature_exit:
  "exit_code (query_feature (init fs)) =
     (if source_unavailable fs query_feature_db \<or>
         schema_mismatch fs query_feature_db query_feature_select then 1 else 0)"
  using query_feature_ok [of fs]
    lookup_script_unavailable_uncaught [of fs query_feature_db]
    lookup_script_mismatch_uncaught [of fs query_feature_db query_feature_select]
  unfolding query_feature_shape exit_code_uncaught by auto

lemma get_feature_30_exit:
  "exit_code (get_feature_30 (init fs)) =
     (if source_unavailable fs features_db \<or>
         schema_mismatch fs features_db get_feature_30_select then 1 else 0)"
  using get_feature_30_ok [of fs]
    lookup_script_unavailable_uncaught [of fs features_db]
    lookup_script_mismatch_uncaught [of fs features_db get_feature_30_select]
  unfolding get_feature_30_shape exit_code_uncaught by auto

lemma get_feature_242_exit:
  "exit_code (get_feature_242 (init fs)) =
     (if source_unavailable fs features_db \<or>
         schema_mismatch fs features_db get_feature_242_select then 1 else 0)"
  using get_feature_242_ok [of fs]
    lookup_script_unavailable_uncaught [of fs features_db]
    lookup_script_mismatch_uncaught [of fs features_db get_feature_242_select]
  unfolding get_feature_242_shape exit_code_uncaught by auto

section \<open>How a run of \<open>fix-imports.py\<close> unfolds\<close>

text \<open>The loop of \<open>fix-imports.py\<close> inserts after the first line the pattern occurs in.\<close>

lemma insert_loop_from:
  "i \<le> length ls \<Longrightarrow>
   insert_loop pat new ls i = take i ls @ insert_after_first pat new (drop i ls)"
proof (induction pat new ls i rule: insert_loop.induct)
  case (1 pat new ls i)
  show ?case
  proof (cases "i < length ls")
    case False
    with "1.prems" show ?thesis
      by (subst insert_loop.simps) simp
  next
    case inside: True
    then have split: "drop i ls = ls ! i # drop (Suc i) ls"
      by (simp add: Cons_nth_drop_Suc)
    from inside have front: "take (Suc i) ls = take i ls @ [ls ! i]"
      by (simp add: take_Suc_conv_app_nth)
    show ?thesis
    proof (cases "contains pat (ls ! i)")
      case True
      with inside split front show ?thesis
        by (simp add: insert_loop.simps [of pat new ls i] list_insert_def)
    next
      case False
      with inside "1.IH" have "insert_loop pat new ls (i + 1) =
          take (i + 1) ls @ insert_after_first pat new (drop (i + 1) ls)"
        by simp
      with inside False split front show ?thesis
        by (simp add: insert_loop.simps [of pat new ls i])
    qed
  qed
qed

lemma insert_loop_all: "insert_loop pat new ls 0 = insert_after_first pat new ls"
  using insert_loop_from [of 0 ls pat new] by simp

lemma subseq_insert_after_first: "subseq ls (insert_after_first pat new ls)"
  by (induction ls) auto

lemma length_insert_after_first:
  "length (insert_after_first pat new ls) =
     length ls + (if list_ex (contains pat) ls then 1 else 0)"
  by (induction ls) auto

lemma insert_after_first_none:
  "\<not> list_ex (contains pat) ls \<Longrightarrow> insert_after_first pat new ls = ls"
  by (induction ls) auto

lemma insert_after_first_at:
  "\<not> list_ex (contains pat) pre \<Longrightarrow> contains pat l \<Longrightarrow>
   insert_after_first pat new (pre @ l # post) = pre @ l # new # post"
  by (induction pre) auto

lemma list_ex_insert_after_first:
  "\<not> P new \<Longrightarrow> list_ex P (insert_after_first pat new ls) = list_ex P ls"
  by (induction ls) auto

lemma box_line_not_dates: "\<not> contains dates_pat box_line"
  by (simp add: dates_pat_def box_line_def newline_def)

lemma fix_imports_run:
  assumes "files client_details = Text content"
  shows "fix_imports linesep (init files) =
    (Inr (),
     \<lparr>world = files(client_details := Text (write_newlines linesep
        (concat (insert_after_first dates_pat dropzone_line
                  (insert_after_first progress_pat box_line (file_lines content)))))),
      stdout = ''Imports added successfully'' @ [newline], handles = [], trace = []\<rparr>)"
  using assms
  by (simp add: fix_imports_def py_bind_def py_seq_def read_file_def write_file_def print_def
      init_def insert_loop_all file_lines_def)

text \<open>A file that is missing or does not decode: nothing is written and nothing printed.\<close>

lemma fix_imports_missing:
  assumes "files client_details = Missing"
  shows "fix_imports linesep (init files) = (Inl FileNotFoundError, init files)"
  using assms by (simp add: fix_imports_def py_bind_def read_file_def init_def)

lemma fix_imports_undecodable:
  assumes "files client_details = Undecodable"
  shows "fix_imports linesep (init files) = (Inl UnicodeDecodeError, init files)"
  using assms by (simp add: fix_imports_def py_bind_def read_file_def init_def)

subsection \<open>Line ends read and written\<close>

lemma universal_newlines_no_cr: "carriage_return \<notin> set (universal_newlines content)"
  by (induction content rule: universal_newlines.induct)
    (auto simp: newline_def carriage_return_def)

lemma universal_newlines_id:
  "carriage_return \<notin> set t \<Longrightarrow> universal_newlines t = t"
  by (induction t rule: universal_newlines.induct) auto

lemma universal_newlines_Cons:
  "c \<noteq> carriage_return \<Longrightarrow> universal_newlines (c # t) = c # universal_newlines t"
  by (cases t) auto

lemma write_newlines_Cons:
  "write_newlines linesep (c # t) =
     (if c = newline then linesep else [c]) @ write_newlines linesep t"
  by (simp add: write_newlines_def)

lemma write_newlines_Nil [simp]: "write_newlines linesep [] = []"
  by (simp add: write_newlines_def)

lemma write_newlines_posix: "write_newlines [newline] t = t"
  by (induction t) (auto simp: write_newlines_Cons)

lemma read_written_windows:
  "carriage_return \<notin> set t \<Longrightarrow>
   universal_newlines (write_newlines [carriage_return, newline] t) = t"
  by (induction t) (auto simp: write_newlines_Cons universal_newlines_Cons)

lemma read_written:
  assumes "carriage_return \<notin> set t"
    and "linesep = [newline] \<or> linesep = [carriage_return, newline]"
  shows "universal_newlines (write_newlines linesep t) = t"
  using assms by (auto simp: write_newlines_posix universal_newlines_id read_written_windows)

lemma concat_readlines: "concat (readlines t) = t"
  by (induction t) (auto split: list.splits)

lemma set_concat_insert_after_first:
  "set (concat (insert_after_first pat new ls)) \<subseteq> set (concat ls) \<union> set new"
  by (induction ls) auto

lemma new_lines_no_cr:
  "carriage_return \<notin> set box_line" "carriage_return \<notin> set dropzone_line"
  by (simp_all add: box_line_def dropzone_line_def newline_def carriage_return_def)

lemma written_lines_no_cr:
  "carriage_return \<notin> set (concat (insert_after_first dates_pat dropzone_line
      (insert_after_first progress_pat box_line (file_lines content))))"
proof -
  have "set (concat (file_lines content)) = set (universal_newlines content)"
    by (simp add: file_lines_def concat_readlines)
  then have "carriage_return \<notin> set (concat (file_lines content))"
    by (simp add: universal_newlines_no_cr)
  with set_concat_insert_after_first [of progress_pat box_line "file_lines content"]
  have "carriage_return \<notin> set (concat (insert_after_first progress_pat box_line
      (file_lines content)))"
    using new_lines_no_cr(1) by blast
  with set_concat_insert_after_first [of dates_pat dropzone_line
      "insert_after_first progress_pat box_line (file_lines content)"]
  show ?thesis
    using new_lines_no_cr(2) by blast
qed

subsection \<open>The written file read again\<close>

text \<open>
  When every line read ends with its newline, that is when the file is empty or ends
  with a line end, the lines of the written file are the lines written. When the last
  line has no line end and a pattern occurs in it, the inserted text follows it on the
  same line of the file.
\<close>

lemma readlines_line:
  "newline \<notin> set body \<Longrightarrow> readlines (body @ newline # rest) = (body @ [newline]) # readlines rest"
  by (induction body) auto

lemma readlines_terminated:
  assumes "terminated l"
  shows "readlines (l @ rest) = l # readlines rest"
proof -
  from assms obtain body where l: "l = body @ [newline]" and body: "newline \<notin> set body"
    by (metis append_butlast_last_id terminated_def)
  from body have "readlines (body @ newline # rest) = (body @ [newline]) # readlines rest"
    by (rule readlines_line)
  then show ?thesis unfolding l by simp
qed

lemma readlines_concat:
  "list_all terminated ls \<Longrightarrow> readlines (concat ls) = ls"
  by (induction ls) (simp_all add: readlines_terminated)

lemma terminated_Cons:
  "terminated l \<Longrightarrow> c \<noteq> newline \<Longrightarrow> terminated (c # l)"
  by (cases l) (auto simp: terminated_def)

lemma readlines_nonempty: "content \<noteq> [] \<Longrightarrow> readlines content \<noteq> []"
  by (cases content) (auto split: list.splits)

lemma readlines_ending_newline:
  "list_all terminated (readlines (content @ [newline]))"
proof (induction content)
  case Nil
  then show ?case by (simp add: terminated_def)
next
  case (Cons c cs)
  show ?case
  proof (cases "c = newline")
    case True
    with Cons show ?thesis by (simp add: terminated_def)
  next
    case False
    from readlines_nonempty [of "cs @ [newline]"]
    obtain l ls where split: "readlines (cs @ [newline]) = l # ls"
      by (cases "readlines (cs @ [newline])") auto
    with Cons have "terminated l" "list_all terminated ls" by simp_all
    with False split show ?thesis by (simp add: terminated_Cons)
  qed
qed

lemma list_all_insert_after_first:
  "P new \<Longrightarrow> list_all P (insert_after_first pat new ls) = list_all P ls"
  by (induction ls) auto

lemma terminated_new_lines: "terminated box_line" "terminated dropzone_line"
  by (simp_all add: terminated_def box_line_def dropzone_line_def newline_def)

lemma file_lines_written:
  assumes "list_all terminated (file_lines content)"
    and "linesep = [newline] \<or> linesep = [carriage_return, newline]"
    and "out = insert_after_first dates_pat dropzone_line
                (insert_after_first progress_pat box_line (file_lines content))"
  shows "file_lines (write_newlines linesep (concat out)) = out"
proof -
  from assms(1,3) have "list_all terminated out"
    by (simp add: list_all_insert_after_first terminated_new_lines)
  then have "readlines (concat out) = out"
    by (rule readlines_concat)
  moreover from assms(3) have "carriage_return \<notin> set (concat out)"
    using written_lines_no_cr by simp
  then have "universal_newlines (write_newlines linesep (concat out)) = concat out"
    using assms(2) by (rule read_written)
  ultimately show ?thesis
    by (simp add: file_lines_def)
qed

lemma file_lines_terminated:
  "universal_newlines content = [] \<or> last (universal_newlines content) = newline \<Longrightarrow>
   list_all terminated (file_lines content)"
proof -
  assume *: "universal_newlines content = [] \<or> last (universal_newlines content) = newline"
  show ?thesis
  proof (cases "universal_newlines content = []")
    case True
    then show ?thesis by (simp add: file_lines_def)
  next
    case False
    with * have "universal_newlines content = butlast (universal_newlines content) @ [newline]"
      by (metis append_butlast_last_id)
    then show ?thesis
      using readlines_ending_newline [of "butlast (universal_newlines content)"]
      by (simp add: file_lines_def)
  qed
qed

text \<open>The lines of the example files.\<close>

lemmas tsx_defs =
  example_tsx_def example_tsx_patched_def plain_tsx_def windows_tsx_def
  windows_tsx_patched_def progress_pat_def dates_pat_def box_line_def dropzone_line_def
  newline_def carriage_return_def

lemma file_lines_example_tsx:
  "file_lines example_tsx =
     [''import {'' @ [newline],
      ''  Progress,'' @ [newline],
      ''} from '' @ [CHR 0x27] @ ''@mantine/core'' @ [CHR 0x27] @ '';'' @ [newline],
      ''import { X } from '' @ [CHR 0x27] @ ''@mantine/dates'' @ [CHR 0x27] @ '';'' @ [newline],
      ''  Progress,'' @ [newline]]"
  by (simp add: file_lines_def example_tsx_def newline_def carriage_return_def)

lemma file_lines_plain_tsx:
  "file_lines plain_tsx = [''const x = 1;'' @ [newline], ''export default x;'']"
  by (simp add: file_lines_def plain_tsx_def newline_def carriage_return_def)

lemma file_lines_windows_tsx:
  "file_lines windows_tsx = [''  Progress,'' @ [newline], ''  Text,'' @ [newline]]"
  by (simp add: file_lines_def windows_tsx_def newline_def carriage_return_def)

lemma file_lines_progress_pat: "file_lines progress_pat = [progress_pat]"
  by (simp add: file_lines_def progress_pat_def newline_def carriage_return_def)

lemma file_lines_progress_box: "file_lines (progress_pat @ box_line) = [progress_pat @ box_line]"
  by (simp add: file_lines_def progress_pat_def box_line_def newline_def carriage_return_def)

section \<open>Names in capitals, identifiers stored as text, recovery pending\<close>

text \<open>
  A table declared \<open>Features\<close> with its columns in capitals is the table the scripts
  ask for: nothing is missing and the record is printed.
\<close>

lemma capitals_are_resolved:
  "has_record (store_with_Features capitals_table) features_db get_feature_30_select
     example_row_30 \<and>
   \<not> schema_mismatch (store_with_Features capitals_table) features_db get_feature_30_select \<and>
   get_feature_30 (init (store_with_Features capitals_table)) =
     (Inr (),
      \<lparr>world = store_with_Features capitals_table,
       stdout = ''ID: 30'' @ [newline] @ ''Priority: high'' @ [newline]
              @ ''Category: core'' @ [newline] @ ''Name: Widget'' @ [newline]
              @ ''Description: desc'' @ [newline] @ ''Steps: step1;step2'' @ [newline],
       handles = [],
       trace = [Connect features_db, Execute features_db, Close features_db]\<rparr>)"
proof -
  have h: "has_record (store_with_Features capitals_table) features_db get_feature_30_select
     example_row_30"
    by (simp add: has_record_def store_with_Features_def capitals_table_def readable_db_def
        find_table_def columns_known_def has_column_def get_feature_30_select_def
        example_row_30_def example_row_242_def example_affinity_def)
  have m: "\<not> schema_mismatch (store_with_Features capitals_table) features_db
      get_feature_30_select"
    by (simp add: schema_mismatch_def store_with_Features_def capitals_table_def
        readable_db_def find_table_def columns_known_def has_column_def
        get_feature_30_select_def)
  have "settled (store_with_Features capitals_table features_db) =
      store_with_Features capitals_table features_db"
    by (simp add: store_with_Features_def settled_def)
  then have "(store_with_Features capitals_table)
      (features_db := settled (store_with_Features capitals_table features_db)) =
      store_with_Features capitals_table"
    by simp
  moreover have "str_int 30 = ''30''"
    by (simp add: render_defs)
  ultimately show ?thesis
    using get_feature_30_found [OF h] h m by (simp add: example_row_30_def)
qed

text \<open>
  In a table whose identifier column is declared \<open>TEXT\<close>, the record stored with the
  text \<open>30\<close> is the record \<open>id = 30\<close> finds.
\<close>

lemma text_identifier_matches:
  "has_record (store_with text_id_table) features_db get_feature_30_select text_row_30 \<and>
   \<not> no_record (store_with text_id_table) features_db get_feature_30_select \<and>
   fst (get_feature_30 (init (store_with text_id_table))) = Inr () \<and>
   stdout (snd (get_feature_30 (init (store_with text_id_table)))) =
     ''ID: 30'' @ [newline] @ ''Priority: high'' @ [newline]
     @ ''Category: core'' @ [newline] @ ''Name: Widget'' @ [newline]
     @ ''Description: desc'' @ [newline] @ ''Steps: step1;step2'' @ [newline]"
proof -
  have key: "str_int 30 = ''30''"
    by (simp add: render_defs)
  have h: "has_record (store_with text_id_table) features_db get_feature_30_select text_row_30"
    by (simp add: has_record_def store_with_def text_id_table_def readable_db_def
        find_table_def columns_known_def has_column_def get_feature_30_select_def
        example_columns_def text_row_30_def key)
  have n: "\<not> no_record (store_with text_id_table) features_db get_feature_30_select"
    by (simp add: no_record_def store_with_def text_id_table_def readable_db_def
        find_table_def columns_known_def has_column_def get_feature_30_select_def
        example_columns_def text_row_30_def key)
  from get_feature_30_found [OF h] h n show ?thesis
    by (simp add: text_row_30_def example_row_30_def)
qed

text \<open>A database with recovery pending is read as the database it recovers to.\<close>

lemma pending_store_is_read:
  "has_record (pending_store_with example_table) features_db get_feature_30_select
     example_row_30 \<and>
   fst (get_feature_30 (init (pending_store_with example_table))) = Inr () \<and>
   world (snd (get_feature_30 (init (pending_store_with example_table)))) features_db =
     DbFile [(''features'', example_table)]"
proof -
  have h: "has_record (pending_store_with example_table) features_db get_feature_30_select
     example_row_30"
    by (simp add: has_record_def pending_store_with_def example_table_def readable_db_def
        find_table_def columns_known_def has_column_def get_feature_30_select_def
        example_columns_def example_row_30_def example_row_242_def example_affinity_def)
  from get_feature_30_found [OF h] h show ?thesis
    by (simp add: pending_store_with_def settled_def)
qed

section \<open>The record is found\<close>

text \<open>
  Claim C1. When the store holds a record with the identifier a script asks for, the
  script prints exactly the fields it selects, each once, in the order selected, every
  value taken from that record, and nothing else: \<open>query_feature.py\<close> and
  \<open>get_feature_30.py\<close> one \<open>label: value\<close> line per field, \<open>get-feature-242.py\<close>
  the JSON object of the seven fields. The script ends without an exception.
\<close>

theorem lookup_found_prints_requested_fields:
  "(has_record fs query_feature_db query_feature_select r \<longrightarrow>
      fst (query_feature (init fs)) = Inr () \<and>
      stdout (snd (query_feature (init fs))) =
        ''id: '' @ py_str (r ''id'') @ [newline]
        @ ''category: '' @ py_str (r ''category'') @ [newline]
        @ ''name: '' @ py_str (r ''name'') @ [newline]
        @ ''description: '' @ py_str (r ''description'') @ [newline]
        @ ''steps: '' @ py_str (r ''steps'') @ [newline]) \<and>
   (has_record fs features_db get_feature_30_select r \<longrightarrow>
      fst (get_feature_30 (init fs)) = Inr () \<and>
      stdout (snd (get_feature_30 (init fs))) =
        ''ID: '' @ py_str (r ''id'') @ [newline]
        @ ''Priority: '' @ py_str (r ''priority'') @ [newline]
        @ ''Category: '' @ py_str (r ''category'') @ [newline]
        @ ''Name: '' @ py_str (r ''name'') @ [newline]
        @ ''Description: '' @ py_str (r ''description'') @ [newline]
        @ ''Steps: '' @ py_str (r ''steps'') @ [newline]) \<and>
   (has_record fs features_db get_feature_242_select r \<longrightarrow>
      fst (get_feature_242 (init fs)) = Inr () \<and>
      stdout (snd (get_feature_242 (init fs))) =
        json_dumps
          [(''id'', r ''id''), (''category'', r ''category''), (''name'', r ''name''),
           (''description'', r ''description''), (''steps'', r ''steps''),
           (''passes'', r ''passes''), (''in_progress'', r ''in_progress'')]
        @ [newline])"
proof (intro conjI impI)
  assume h: "has_record fs query_feature_db query_feature_select r"
  show "fst (query_feature (init fs)) = Inr ()"
    by (simp add: query_feature_found [OF h])
  show "stdout (snd (query_feature (init fs))) =
        ''id: '' @ py_str (r ''id'') @ [newline]
        @ ''category: '' @ py_str (r ''category'') @ [newline]
        @ ''name: '' @ py_str (r ''name'') @ [newline]
        @ ''description: '' @ py_str (r ''description'') @ [newline]
        @ ''steps: '' @ py_str (r ''steps'') @ [newline]"
    by (simp add: query_feature_found [OF h])
next
  assume h: "has_record fs features_db get_feature_30_select r"
  show "fst (get_feature_30 (init fs)) = Inr ()"
    by (simp add: get_feature_30_found [OF h])
  show "stdout (snd (get_feature_30 (init fs))) =
        ''ID: '' @ py_str (r ''id'') @ [newline]
        @ ''Priority: '' @ py_str (r ''priority'') @ [newline]
        @ ''Category: '' @ py_str (r ''category'') @ [newline]
        @ ''Name: '' @ py_str (r ''name'') @ [newline]
        @ ''Description: '' @ py_str (r ''description'') @ [newline]
        @ ''Steps: '' @ py_str (r ''steps'') @ [newline]"
    by (simp add: get_feature_30_found [OF h])
next
  assume h: "has_record fs features_db get_feature_242_select r"
  show "fst (get_feature_242 (init fs)) = Inr ()"
    by (simp add: get_feature_242_found [OF h])
  show "stdout (snd (get_feature_242 (init fs))) =
        json_dumps
          [(''id'', r ''id''), (''category'', r ''category''), (''name'', r ''name''),
           (''description'', r ''description''), (''steps'', r ''steps''),
           (''passes'', r ''passes''), (''in_progress'', r ''in_progress'')]
        @ [newline]"
    by (simp add: get_feature_242_found [OF h])
qed

theorem lookup_found_prints_requested_fields_witness:
  "has_record (store_with example_table) query_feature_db query_feature_select example_row_242 \<and>
   stdout (snd (query_feature (init (store_with example_table)))) =
     ''id: 242'' @ [newline] @ ''category: ui'' @ [newline] @ ''name: Upload'' @ [newline]
     @ ''description: None'' @ [newline] @ ''steps: ['' @ [dquote] @ ''open'' @ [dquote] @ '']''
     @ [newline] \<and>
   has_record (store_with example_table) features_db get_feature_30_select example_row_30 \<and>
   stdout (snd (get_feature_30 (init (store_with example_table)))) =
     ''ID: 30'' @ [newline] @ ''Priority: high'' @ [newline] @ ''Category: core'' @ [newline]
     @ ''Name: Widget'' @ [newline] @ ''Description: desc'' @ [newline]
     @ ''Steps: step1;step2'' @ [newline] \<and>
   has_record (store_with example_table) features_db get_feature_242_select example_row_242 \<and>
   stdout (snd (get_feature_242 (init (store_with example_table)))) =
     ''{'' @ [newline]
     @ ''  '' @ [dquote] @ ''id'' @ [dquote] @ '': 242,'' @ [newline]
     @ ''  '' @ [dquote] @ ''category'' @ [dquote] @ '': '' @ [dquote] @ ''ui'' @ [dquote] @ '','' @ [newline]
     @ ''  '' @ [dquote] @ ''name'' @ [dquote] @ '': '' @ [dquote] @ ''Upload'' @ [dquote] @ '','' @ [newline]
     @ ''  '' @ [dquote] @ ''description'' @ [dquote] @ '': null,'' @ [newline]
     @ ''  '' @ [dquote] @ ''steps'' @ [dquote] @ '': '' @ [dquote] @ ''['' @ [backslash, dquote] @ ''open'' @ [backslash, dquote] @ '']'' @ [dquote] @ '','' @ [newline]
     @ ''  '' @ [dquote] @ ''passes'' @ [dquote] @ '': 1,'' @ [newline]
     @ ''  '' @ [dquote] @ ''in_progress'' @ [dquote] @ '': 0'' @ [newline]
     @ ''}'' @ [newline]"
proof -
  have h1: "has_record (store_with example_table) query_feature_db query_feature_select example_row_242"
    by (simp add: has_record_def example_defs)
  have h2: "has_record (store_with example_table) features_db get_feature_30_select example_row_30"
    by (simp add: has_record_def example_defs)
  have h3: "has_record (store_with example_table) features_db get_feature_242_select example_row_242"
    by (simp add: has_record_def example_defs)
  from h1 lookup_found_prints_requested_fields [of "store_with example_table" example_row_242]
  have o1: "stdout (snd (query_feature (init (store_with example_table)))) =
     ''id: 242'' @ [newline] @ ''category: ui'' @ [newline] @ ''name: Upload'' @ [newline]
     @ ''description: None'' @ [newline] @ ''steps: ['' @ [dquote] @ ''open'' @ [dquote] @ '']''
     @ [newline]"
    by (simp add: example_row_242_def render_defs)
  from h2 lookup_found_prints_requested_fields [of "store_with example_table" example_row_30]
  have o2: "stdout (snd (get_feature_30 (init (store_with example_table)))) =
     ''ID: 30'' @ [newline] @ ''Priority: high'' @ [newline] @ ''Category: core'' @ [newline]
     @ ''Name: Widget'' @ [newline] @ ''Description: desc'' @ [newline]
     @ ''Steps: step1;step2'' @ [newline]"
    by (simp add: example_row_30_def render_defs)
  from h3 lookup_found_prints_requested_fields [of "store_with example_table" example_row_242]
  have o3: "stdout (snd (get_feature_242 (init (store_with example_table)))) =
     ''{'' @ [newline]
     @ ''  '' @ [dquote] @ ''id'' @ [dquote] @ '': 242,'' @ [newline]
     @ ''  '' @ [dquote] @ ''category'' @ [dquote] @ '': '' @ [dquote] @ ''ui'' @ [dquote] @ '','' @ [newline]
     @ ''  '' @ [dquote] @ ''name'' @ [dquote] @ '': '' @ [dquote] @ ''Upload'' @ [dquote] @ '','' @ [newline]
     @ ''  '' @ [dquote] @ ''description'' @ [dquote] @ '': null,'' @ [newline]
     @ ''  '' @ [dquote] @ ''steps'' @ [dquote] @ '': '' @ [dquote] @ ''['' @ [backslash, dquote] @ ''open'' @ [backslash, dquote] @ '']'' @ [dquote] @ '','' @ [newline]
     @ ''  '' @ [dquote] @ ''passes'' @ [dquote] @ '': 1,'' @ [newline]
     @ ''  '' @ [dquote] @ ''in_progress'' @ [dquote] @ '': 0'' @ [newline]
     @ ''}'' @ [newline]"
    by (simp add: example_row_242_def render_defs)
  from h1 h2 h3 o1 o2 o3 show ?thesis by blast
qed

section \<open>The record is absent\<close>

text \<open>
  Claim C2. When the store opens, has the table and the columns asked for, and holds no
  record with the identifier, a lookup script does not raise: it prints its absence
  message and ends normally, with exit status 0. A record has the identifier when the
  comparison \<open>id = k\<close> finds it, so in a column declared \<open>TEXT\<close> the stored text of
  the digits. For \<open>get-feature-74.py\<close>: when \<open>create_database\<close> succeeds and the
  query returns \<open>None\<close>.
\<close>

theorem lookup_absent_reports_and_succeeds:
  "(no_record fs query_feature_db query_feature_select \<longrightarrow>
      fst (query_feature (init fs)) = Inr () \<and>
      exit_code (query_feature (init fs)) = 0 \<and>
      stdout (snd (query_feature (init fs))) = ''No feature found with id=242'' @ [newline]) \<and>
   (no_record fs features_db get_feature_30_select \<longrightarrow>
      fst (get_feature_30 (init fs)) = Inr () \<and>
      exit_code (get_feature_30 (init fs)) = 0 \<and>
      stdout (snd (get_feature_30 (init fs))) = ''Feature #30 not found'' @ [newline]) \<and>
   (no_record fs features_db get_feature_242_select \<longrightarrow>
      fst (get_feature_242 (init fs)) = Inr () \<and>
      exit_code (get_feature_242 (init fs)) = 0 \<and>
      stdout (snd (get_feature_242 (init fs))) = ''Feature not found'' @ [newline]) \<and>
   (create_database api w = (Inr (), w1) \<and> query_first api 74 w1 = (Inr None, w2) \<longrightarrow>
      fst (get_feature_74 api (init w)) = Inr () \<and>
      exit_code (get_feature_74 api (init w)) = 0 \<and>
      stdout (snd (get_feature_74 api (init w))) = ''Feature #74 not found'' @ [newline])"
proof (intro conjI impI)
  assume h: "no_record fs query_feature_db query_feature_select"
  show "fst (query_feature (init fs)) = Inr ()"
    and "exit_code (query_feature (init fs)) = 0"
    and "stdout (snd (query_feature (init fs))) = ''No feature found with id=242'' @ [newline]"
    by (simp_all add: query_feature_absent [OF h] exit_code_def)
next
  assume h: "no_record fs features_db get_feature_30_select"
  show "fst (get_feature_30 (init fs)) = Inr ()"
    and "exit_code (get_feature_30 (init fs)) = 0"
    and "stdout (snd (get_feature_30 (init fs))) = ''Feature #30 not found'' @ [newline]"
    by (simp_all add: get_feature_30_absent [OF h] exit_code_def)
next
  assume h: "no_record fs features_db get_feature_242_select"
  show "fst (get_feature_242 (init fs)) = Inr ()"
    and "exit_code (get_feature_242 (init fs)) = 0"
    and "stdout (snd (get_feature_242 (init fs))) = ''Feature not found'' @ [newline]"
    by (simp_all add: get_feature_242_absent [OF h] exit_code_def)
next
  assume "create_database api w = (Inr (), w1) \<and> query_first api 74 w1 = (Inr None, w2)"
  then have h: "create_database api w = (Inr (), w1)" "query_first api 74 w1 = (Inr None, w2)"
    by simp_all
  show "fst (get_feature_74 api (init w)) = Inr ()"
    and "exit_code (get_feature_74 api (init w)) = 0"
    and "stdout (snd (get_feature_74 api (init w))) = ''Feature #74 not found'' @ [newline]"
    by (simp_all add: get_feature_74_absent [OF h] exit_code_def)
qed

theorem lookup_absent_reports_and_succeeds_witness:
  "no_record (store_with empty_table) query_feature_db query_feature_select \<and>
   no_record (store_with empty_table) features_db get_feature_30_select \<and>
   no_record (store_with empty_table) features_db get_feature_242_select \<and>
   create_database example_api [30, 242] = (Inr (), [30, 242]) \<and>
   query_first example_api 74 [30, 242] = (Inr None, [30, 242]) \<and>
   exit_code (query_feature (init (store_with empty_table))) = 0 \<and>
   stdout (snd (query_feature (init (store_with empty_table)))) =
     ''No feature found with id=242'' @ [newline] \<and>
   exit_code (get_feature_30 (init (store_with empty_table))) = 0 \<and>
   stdout (snd (get_feature_30 (init (store_with empty_table)))) =
     ''Feature #30 not found'' @ [newline] \<and>
   exit_code (get_feature_242 (init (store_with empty_table))) = 0 \<and>
   stdout (snd (get_feature_242 (init (store_with empty_table)))) =
     ''Feature not found'' @ [newline] \<and>
   exit_code (get_feature_74 example_api (init [30, 242])) = 0 \<and>
   stdout (snd (get_feature_74 example_api (init [30, 242]))) =
     ''Feature #74 not found'' @ [newline] \<and>
   no_record (store_with text_id_table) features_db get_feature_242_select \<and>
   stdout (snd (get_feature_242 (init (store_with text_id_table)))) =
     ''Feature not found'' @ [newline]"
proof -
  have h1: "no_record (store_with empty_table) query_feature_db query_feature_select"
    and h2: "no_record (store_with empty_table) features_db get_feature_30_select"
    and h3: "no_record (store_with empty_table) features_db get_feature_242_select"
    by (simp_all add: no_record_def example_defs)
  have h4: "create_database example_api [30, 242] = (Inr (), [30, 242]) \<and>
            query_first example_api 74 [30, 242] = (Inr None, [30, 242])"
    by (simp add: example_api_def)
  have key: "str_int 242 = ''242''"
    by (simp add: render_defs)
  have h5: "no_record (store_with text_id_table) features_db get_feature_242_select"
    by (simp add: no_record_def store_with_def text_id_table_def readable_db_def
        find_table_def columns_known_def has_column_def get_feature_242_select_def
        example_columns_def text_row_30_def key)
  from h1 h2 h3 h4 h5
    lookup_absent_reports_and_succeeds
      [of "store_with empty_table" example_api "[30, 242]" "[30, 242]" "[30, 242]"]
    lookup_absent_reports_and_succeeds
      [of "store_with text_id_table" example_api "[30, 242]" "[30, 242]" "[30, 242]"]
  show ?thesis by simp
qed

text \<open>
  Claim C3. The absence output is a single line that names the identifier asked for.
  \<open>get-feature-242.py\<close> does not do so: on a store without record 242 it prints
  \<open>Feature not found\<close>, in which \<open>242\<close> does not occur, while the three other
  scripts name their identifier (lemma \<open>absence_messages_name_identifier\<close>).
\<close>

theorem get_feature_242_absence_message_lacks_identifier:
  "no_record (store_with empty_table) features_db get_feature_242_select \<and>
   stdout (snd (get_feature_242 (init (store_with empty_table)))) =
     ''Feature not found'' @ [newline] \<and>
   \<not> contains (str_int 242) (stdout (snd (get_feature_242 (init (store_with empty_table)))))"
proof -
  have h: "no_record (store_with empty_table) features_db get_feature_242_select"
    by (simp add: no_record_def example_defs)
  have "\<not> contains ''242'' (''Feature not found'' @ [newline])"
    by (simp add: newline_def)
  moreover have "str_int 242 = ''242''"
    by (simp add: render_defs)
  ultimately show ?thesis
    using h by (simp add: get_feature_242_absent [OF h])
qed

section \<open>Running a lookup twice\<close>

text \<open>
  Claim C4. A lookup script run twice in a row, the second run on the files the first
  one left, ends the same way and writes the same text to standard output both times.
\<close>

theorem lookup_twice_same_output:
  "fst (run_twice query_feature fs) = snd (run_twice query_feature fs) \<and>
   fst (run_twice get_feature_30 fs) = snd (run_twice get_feature_30 fs) \<and>
   fst (run_twice get_feature_242 fs) = snd (run_twice get_feature_242 fs)"
proof (intro conjI)
  show "fst (run_twice query_feature fs) = snd (run_twice query_feature fs)"
    unfolding query_feature_shape
    by (intro lookup_script_rerun py_seq_world print_field_world print_world)
  show "fst (run_twice get_feature_30 fs) = snd (run_twice get_feature_30 fs)"
    unfolding get_feature_30_shape
    by (intro lookup_script_rerun py_seq_world print_field_world print_world)
  show "fst (run_twice get_feature_242 fs) = snd (run_twice get_feature_242 fs)"
    unfolding get_feature_242_shape
    by (intro lookup_script_rerun py_bind_world py_lift_world print_world)
qed

section \<open>A requested field the schema lacks\<close>

text \<open>
  Claim C5, as stated: a lookup that requests a field the schema lacks fails before any
  access to the store is attempted. The scripts do not: on a table without the column
  \<open>steps\<close>, \<open>query_feature.py\<close> has connected to the store and executed the
  statement when it fails.
\<close>

theorem schema_mismatch_fails_after_store_access:
  "schema_mismatch (store_with old_table) query_feature_db query_feature_select \<and>
   \<not> failed_before_store_access (query_feature (init (store_with old_table))) \<and>
   fst (query_feature (init (store_with old_table))) =
     Inl (OperationalError ''no such column: steps'') \<and>
   trace (snd (query_feature (init (store_with old_table)))) =
     [Connect query_feature_db, Execute query_feature_db]"
  by (simp add: schema_mismatch_def failed_before_store_access_def query_feature_shape
      lookup_script_run run_select_def select_rows_def example_defs)

text \<open>
  Claim C5, amended. A lookup that requests a field the schema lacks (or whose table
  is missing) fails with an uncaught \<open>OperationalError\<close> raised by \<open>execute\<close>,
  after \<open>connect\<close> has opened the store: the calls made are the connect and the
  execute, nothing is printed, and the exit status is 1.
\<close>

theorem schema_mismatch_raises_from_execute:
  "(schema_mismatch fs query_feature_db query_feature_select \<longrightarrow>
      (\<exists>msg. fst (query_feature (init fs)) = Inl (OperationalError msg)) \<and>
      trace (snd (query_feature (init fs))) = [Connect query_feature_db, Execute query_feature_db] \<and>
      stdout (snd (query_feature (init fs))) = [] \<and>
      exit_code (query_feature (init fs)) = 1) \<and>
   (schema_mismatch fs features_db get_feature_30_select \<longrightarrow>
      (\<exists>msg. fst (get_feature_30 (init fs)) = Inl (OperationalError msg)) \<and>
      trace (snd (get_feature_30 (init fs))) = [Connect features_db, Execute features_db] \<and>
      stdout (snd (get_feature_30 (init fs))) = [] \<and>
      exit_code (get_feature_30 (init fs)) = 1) \<and>
   (schema_mismatch fs features_db get_feature_242_select \<longrightarrow>
      (\<exists>msg. fst (get_feature_242 (init fs)) = Inl (OperationalError msg)) \<and>
      trace (snd (get_feature_242 (init fs))) = [Connect features_db, Execute features_db] \<and>
      stdout (snd (get_feature_242 (init fs))) = [] \<and>
      exit_code (get_feature_242 (init fs)) = 1)"
proof (intro conjI impI)
  assume "schema_mismatch fs query_feature_db query_feature_select"
  then obtain msg where run: "query_feature (init fs) =
      (Inl (OperationalError msg), after_execute fs query_feature_db)"
    unfolding query_feature_shape using lookup_script_schema_mismatch by blast
  show "\<exists>msg. fst (query_feature (init fs)) = Inl (OperationalError msg)"
    and "trace (snd (query_feature (init fs))) = [Connect query_feature_db, Execute query_feature_db]"
    and "stdout (snd (query_feature (init fs))) = []"
    and "exit_code (query_feature (init fs)) = 1"
    by (simp_all add: run)
next
  assume "schema_mismatch fs features_db get_feature_30_select"
  then obtain msg where run: "get_feature_30 (init fs) =
      (Inl (OperationalError msg), after_execute fs features_db)"
    unfolding get_feature_30_shape using lookup_script_schema_mismatch by blast
  show "\<exists>msg. fst (get_feature_30 (init fs)) = Inl (OperationalError msg)"
    and "trace (snd (get_feature_30 (init fs))) = [Connect features_db, Execute features_db]"
    and "stdout (snd (get_feature_30 (init fs))) = []"
    and "exit_code (get_feature_30 (init fs)) = 1"
    by (simp_all add: run)
next
  assume "schema_mismatch fs features_db get_feature_242_select"
  then obtain msg where run: "get_feature_242 (init fs) =
      (Inl (OperationalError msg), after_execute fs features_db)"
    unfolding get_feature_242_shape using lookup_script_schema_mismatch by blast
  show "\<exists>msg. fst (get_feature_242 (init fs)) = Inl (OperationalError msg)"
    and "trace (snd (get_feature_242 (init fs))) = [Connect features_db, Execute features_db]"
    and "stdout (snd (get_feature_242 (init fs))) = []"
    and "exit_code (get_feature_242 (init fs)) = 1"
    by (simp_all add: run)
qed

theorem schema_mismatch_raises_from_execute_witness:
  "schema_mismatch (store_with old_table) query_feature_db query_feature_select \<and>
   schema_mismatch (store_with old_table) features_db get_feature_30_select \<and>
   schema_mismatch store_without_table features_db get_feature_242_select \<and>
   trace (snd (query_feature (init (store_with old_table)))) =
     [Connect query_feature_db, Execute query_feature_db] \<and>
   exit_code (query_feature (init (store_with old_table))) = 1 \<and>
   trace (snd (get_feature_30 (init (store_with old_table)))) =
     [Connect features_db, Execute features_db] \<and>
   exit_code (get_feature_30 (init (store_with old_table))) = 1 \<and>
   trace (snd (get_feature_242 (init store_without_table))) =
     [Connect features_db, Execute features_db] \<and>
   exit_code (get_feature_242 (init store_without_table)) = 1"
proof -
  have h: "schema_mismatch (store_with old_table) query_feature_db query_feature_select"
    "schema_mismatch (store_with old_table) features_db get_feature_30_select"
    "schema_mismatch store_without_table features_db get_feature_242_select"
    by (simp_all add: schema_mismatch_def example_defs)
  with schema_mismatch_raises_from_execute [of "store_with old_table"]
    schema_mismatch_raises_from_execute [of store_without_table]
  show ?thesis by simp
qed

section \<open>A store that cannot be opened\<close>

text \<open>
  Claim C6, as stated: at a location that does not exist or cannot be opened the lookup
  fails with \<open>SourceUnavailable\<close> and never ends with an unhandled fault. The scripts
  catch nothing: where no file exists \<open>connect\<close> creates an empty database and
  \<open>execute\<close> raises, and where the file cannot be opened \<open>connect\<close> raises; either
  exception ends the run uncaught.
\<close>

theorem missing_store_ends_uncaught:
  "source_unavailable no_store query_feature_db \<and>
   uncaught (query_feature (init no_store)) \<and>
   fst (query_feature (init no_store)) = Inl (OperationalError ''no such table: features'') \<and>
   source_unavailable unopenable_store features_db \<and>
   uncaught (get_feature_30 (init unopenable_store)) \<and>
   fst (get_feature_30 (init unopenable_store)) =
     Inl (OperationalError ''unable to open database file'')"
  by (simp add: source_unavailable_def no_store_def unopenable_store_def query_feature_shape
      get_feature_30_shape lookup_script_run query_feature_select_def)

text \<open>
  Claim C6, amended. At a location where no database can be read (no file, a file that
  cannot be opened, a file that is not a database) a lookup ends with an uncaught
  \<open>sqlite3\<close> exception, \<open>OperationalError\<close> or \<open>DatabaseError\<close>; nothing is
  printed and the exit status is 1. \<open>get-feature-74.py\<close> likewise ends with whatever
  \<open>create_database\<close> raises.
\<close>

theorem unavailable_store_ends_uncaught:
  "(source_unavailable fs query_feature_db \<longrightarrow>
      uncaught (query_feature (init fs)) \<and>
      fst (query_feature (init fs)) \<in>
        {Inl (OperationalError ''unable to open database file''),
         Inl (OperationalError ''no such table: features''),
         Inl (DatabaseError ''file is not a database'')} \<and>
      stdout (snd (query_feature (init fs))) = [] \<and>
      exit_code (query_feature (init fs)) = 1) \<and>
   (source_unavailable fs features_db \<longrightarrow>
      uncaught (get_feature_30 (init fs)) \<and>
      fst (get_feature_30 (init fs)) \<in>
        {Inl (OperationalError ''unable to open database file''),
         Inl (OperationalError ''no such table: features''),
         Inl (DatabaseError ''file is not a database'')} \<and>
      stdout (snd (get_feature_30 (init fs))) = [] \<and>
      exit_code (get_feature_30 (init fs)) = 1) \<and>
   (source_unavailable fs features_db \<longrightarrow>
      uncaught (get_feature_242 (init fs)) \<and>
      fst (get_feature_242 (init fs)) \<in>
        {Inl (OperationalError ''unable to open database file''),
         Inl (OperationalError ''no such table: features''),
         Inl (DatabaseError ''file is not a database'')} \<and>
      stdout (snd (get_feature_242 (init fs))) = [] \<and>
      exit_code (get_feature_242 (init fs)) = 1) \<and>
   (create_database api w = (Inl e, w1) \<longrightarrow>
      uncaught (get_feature_74 api (init w)) \<and>
      fst (get_feature_74 api (init w)) = Inl e \<and>
      stdout (snd (get_feature_74 api (init w))) = [] \<and>
      exit_code (get_feature_74 api (init w)) = 1)"
proof (intro conjI impI)
  assume h: "source_unavailable fs query_feature_db"
  show "uncaught (query_feature (init fs))"
    unfolding query_feature_shape using h by (rule lookup_script_unavailable_uncaught)
  then show "exit_code (query_feature (init fs)) = 1"
    by (simp add: exit_code_uncaught)
  show "fst (query_feature (init fs)) \<in>
        {Inl (OperationalError ''unable to open database file''),
         Inl (OperationalError ''no such table: features''),
         Inl (DatabaseError ''file is not a database'')}"
    using lookup_script_source_unavailable(1) [OF h, where q = query_feature_select]
    unfolding query_feature_shape by (simp add: query_feature_select_def)
  show "stdout (snd (query_feature (init fs))) = []"
    unfolding query_feature_shape using h by (rule lookup_script_source_unavailable(2))
next
  assume h: "source_unavailable fs features_db"
  show "uncaught (get_feature_30 (init fs))"
    unfolding get_feature_30_shape using h by (rule lookup_script_unavailable_uncaught)
  then show "exit_code (get_feature_30 (init fs)) = 1"
    by (simp add: exit_code_uncaught)
  show "fst (get_feature_30 (init fs)) \<in>
        {Inl (OperationalError ''unable to open database file''),
         Inl (OperationalError ''no such table: features''),
         Inl (DatabaseError ''file is not a database'')}"
    using lookup_script_source_unavailable(1) [OF h, where q = get_feature_30_select]
    unfolding get_feature_30_shape by (simp add: get_feature_30_select_def)
  show "stdout (snd (get_feature_30 (init fs))) = []"
    unfolding get_feature_30_shape using h by (rule lookup_script_source_unavailable(2))
next
  assume h: "source_unavailable fs features_db"
  show "uncaught (get_feature_242 (init fs))"
    unfolding get_feature_242_shape using h by (rule lookup_script_unavailable_uncaught)
  then show "exit_code (get_feature_242 (init fs)) = 1"
    by (simp add: exit_code_uncaught)
  show "fst (get_feature_242 (init fs)) \<in>
        {Inl (OperationalError ''unable to open database file''),
         Inl (OperationalError ''no such table: features''),
         Inl (DatabaseError ''file is not a database'')}"
    using lookup_script_source_unavailable(1) [OF h, where q = get_feature_242_select]
    unfolding get_feature_242_shape by (simp add: get_feature_242_select_def)
  show "stdout (snd (get_feature_242 (init fs))) = []"
    unfolding get_feature_242_shape using h by (rule lookup_script_source_unavailable(2))
next
  assume h: "create_database api w = (Inl e, w1)"
  show "uncaught (get_feature_74 api (init w))"
    and "fst (get_feature_74 api (init w)) = Inl e"
    and "stdout (snd (get_feature_74 api (init w))) = []"
    and "exit_code (get_feature_74 api (init w)) = 1"
    by (simp_all add: get_feature_74_run h)
qed

theorem unavailable_store_ends_uncaught_witness:
  "source_unavailable no_store query_feature_db \<and>
   source_unavailable unopenable_store features_db \<and>
   source_unavailable corrupt_store features_db \<and>
   create_database failing_api [] =
     (Inl (OperationalError ''unable to open database file''), []) \<and>
   uncaught (query_feature (init no_store)) \<and>
   exit_code (query_feature (init no_store)) = 1 \<and>
   uncaught (get_feature_30 (init unopenable_store)) \<and>
   exit_code (get_feature_30 (init unopenable_store)) = 1 \<and>
   uncaught (get_feature_242 (init corrupt_store)) \<and>
   exit_code (get_feature_242 (init corrupt_store)) = 1 \<and>
   fst (get_feature_74 failing_api (init [])) =
     Inl (OperationalError ''unable to open database file'')"
proof -
  have h: "source_unavailable no_store query_feature_db"
    "source_unavailable unopenable_store features_db"
    "source_unavailable corrupt_store features_db"
    by (simp_all add: source_unavailable_def example_defs)
  have a: "create_database failing_api [] =
     (Inl (OperationalError ''unable to open database file''), [])"
    by (simp add: failing_api_def)
  from h a
    unavailable_store_ends_uncaught [of no_store failing_api "[]" _ "[]"]
    unavailable_store_ends_uncaught [of unopenable_store failing_api "[]" _ "[]"]
    unavailable_store_ends_uncaught [of corrupt_store failing_api "[]" _ "[]"]
  show ?thesis by simp
qed

section \<open>The store after a lookup\<close>

text \<open>
  Claim C7, as stated: a lookup is read-only, the store and its file are unchanged after
  it on every path. Where no file exists at the location the scripts do write:
  \<open>sqlite3.connect\<close> creates the file, an empty database, before \<open>execute\<close> fails.
\<close>

theorem missing_store_is_created:
  "no_store features_db = NoFile \<and>
   world (snd (get_feature_30 (init no_store))) features_db = DbFile [] \<and>
   world (snd (get_feature_30 (init no_store))) \<noteq> no_store"
proof -
  have created: "world (snd (get_feature_30 (init no_store))) features_db = DbFile []"
    by (simp add: get_feature_30_world no_store_def settled_def)
  have "no_store features_db = NoFile"
    by (simp add: no_store_def)
  with created have "world (snd (get_feature_30 (init no_store))) features_db \<noteq>
      no_store features_db"
    by simp
  then have "world (snd (get_feature_30 (init no_store))) \<noteq> no_store"
    by auto
  with created \<open>no_store features_db = NoFile\<close> show ?thesis by simp
qed

text \<open>
  Claim C7, amended. Where the location holds a database with nothing pending, a file
  that is not a database, or something that cannot be opened, the file system after a
  lookup is the file system before it, on every path. Where no file exists, the lookup
  leaves an empty database at the location; where a hot journal or a write-ahead log
  is pending, it leaves the recovered database. Nothing else of the file system
  changes.
\<close>

theorem lookup_changes_only_what_is_unsettled:
  "(stable (fs query_feature_db) \<longrightarrow> world (snd (query_feature (init fs))) = fs) \<and>
   (stable (fs features_db) \<longrightarrow>
      world (snd (get_feature_30 (init fs))) = fs \<and>
      world (snd (get_feature_242 (init fs))) = fs) \<and>
   (fs query_feature_db = NoFile \<longrightarrow>
      world (snd (query_feature (init fs))) = fs(query_feature_db := DbFile [])) \<and>
   (fs features_db = NoFile \<longrightarrow>
      world (snd (get_feature_30 (init fs))) = fs(features_db := DbFile []) \<and>
      world (snd (get_feature_242 (init fs))) = fs(features_db := DbFile [])) \<and>
   (fs query_feature_db = DbPending db \<longrightarrow>
      world (snd (query_feature (init fs))) = fs(query_feature_db := DbFile db)) \<and>
   (fs features_db = DbPending db \<longrightarrow>
      world (snd (get_feature_30 (init fs))) = fs(features_db := DbFile db) \<and>
      world (snd (get_feature_242 (init fs))) = fs(features_db := DbFile db))"
proof -
  have same: "fs(p := settled (fs p)) = fs" if "stable (fs p)" for p
  proof -
    from that have "settled (fs p) = fs p"
      by (cases "fs p") (simp_all add: stable_def settled_def)
    then show ?thesis by simp
  qed
  have created: "fs(p := settled (fs p)) = fs(p := DbFile [])" if "fs p = NoFile" for p
    using that by (simp add: settled_def)
  have recovered: "fs(p := settled (fs p)) = fs(p := DbFile db)" if "fs p = DbPending db" for p
    using that by (simp add: settled_def)
  show ?thesis
    unfolding query_feature_world get_feature_30_world get_feature_242_world
    using same created recovered by blast
qed

theorem lookup_changes_only_what_is_unsettled_witness:
  "stable (store_with example_table query_feature_db) \<and>
   stable (store_with old_table features_db) \<and>
   stable (corrupt_store features_db) \<and>
   stable (unopenable_store features_db) \<and>
   no_store features_db = NoFile \<and>
   pending_store_with example_table features_db = DbPending [(''features'', example_table)] \<and>
   world (snd (query_feature (init (store_with example_table)))) = store_with example_table \<and>
   world (snd (get_feature_242 (init (store_with old_table)))) = store_with old_table \<and>
   world (snd (get_feature_30 (init corrupt_store))) = corrupt_store \<and>
   world (snd (get_feature_30 (init unopenable_store))) = unopenable_store \<and>
   world (snd (get_feature_242 (init no_store))) = no_store(features_db := DbFile []) \<and>
   world (snd (get_feature_30 (init (pending_store_with example_table)))) =
     (pending_store_with example_table)(features_db := DbFile [(''features'', example_table)])"
proof -
  have h: "stable (store_with example_table query_feature_db)"
    "stable (store_with old_table features_db)"
    "stable (corrupt_store features_db)"
    "stable (unopenable_store features_db)"
    "no_store features_db = NoFile"
    "pending_store_with example_table features_db = DbPending [(''features'', example_table)]"
    by (simp_all add: stable_def store_with_def corrupt_store_def unopenable_store_def
        no_store_def pending_store_with_def)
  with lookup_changes_only_what_is_unsettled [of "store_with example_table"]
    lookup_changes_only_what_is_unsettled [of "store_with old_table"]
    lookup_changes_only_what_is_unsettled [of corrupt_store]
    lookup_changes_only_what_is_unsettled [of unopenable_store]
    lookup_changes_only_what_is_unsettled [of no_store]
    lookup_changes_only_what_is_unsettled
      [of "pending_store_with example_table" "[(''features'', example_table)]"]
  show ?thesis by simp
qed

section \<open>Release of the store handle\<close>

text \<open>
  Claim C8. The handle opened at the start of a run is released before the run ends, on
  every exit path. \<open>get-feature-74.py\<close> closes its session in a \<open>finally\<close> block
  (lemma \<open>get_feature_74_releases_session\<close>); the three \<open>sqlite3\<close> scripts call
  \<open>conn.close()\<close> as their last statement only, so when \<open>execute\<close> raises, here on a
  database without the table \<open>features\<close>, the connection is still open when the run
  ends and no close was called.
\<close>

theorem error_path_leaves_connection_open:
  "fst (get_feature_242 (init store_without_table)) =
     Inl (OperationalError ''no such table: features'') \<and>
   handles (snd (get_feature_242 (init store_without_table))) = [features_db] \<and>
   trace (snd (get_feature_242 (init store_without_table))) =
     [Connect features_db, Execute features_db] \<and>
   fst (query_feature (init store_without_table)) =
     Inl (OperationalError ''no such table: features'') \<and>
   handles (snd (query_feature (init store_without_table))) = [query_feature_db] \<and>
   trace (snd (query_feature (init store_without_table))) =
     [Connect query_feature_db, Execute query_feature_db] \<and>
   fst (get_feature_30 (init store_without_table)) =
     Inl (OperationalError ''no such table: features'') \<and>
   handles (snd (get_feature_30 (init store_without_table))) = [features_db] \<and>
   trace (snd (get_feature_30 (init store_without_table))) =
     [Connect features_db, Execute features_db]"
  by (simp add: store_without_table_def query_feature_shape get_feature_30_shape
      get_feature_242_shape lookup_script_run run_select_def find_table_def
      query_feature_select_def get_feature_30_select_def get_feature_242_select_def)

section \<open>Exit status\<close>

text \<open>
  Claim C9. The exit status is 0 when the lookup succeeds, the record found or its
  absence reported, and not 0 when the store is unavailable or the schema lacks a
  requested field. For \<open>get-feature-74.py\<close> it is 0 exactly when neither
  \<open>create_database\<close>, nor the query, nor \<open>to_json\<close> raises.
\<close>

theorem exit_status_by_outcome:
  "((has_record fs query_feature_db query_feature_select r \<or>
     no_record fs query_feature_db query_feature_select) \<longrightarrow>
      exit_code (query_feature (init fs)) = 0) \<and>
   ((source_unavailable fs query_feature_db \<or>
     schema_mismatch fs query_feature_db query_feature_select) \<longrightarrow>
      exit_code (query_feature (init fs)) \<noteq> 0) \<and>
   ((has_record fs features_db get_feature_30_select r \<or>
     no_record fs features_db get_feature_30_select) \<longrightarrow>
      exit_code (get_feature_30 (init fs)) = 0) \<and>
   ((source_unavailable fs features_db \<or>
     schema_mismatch fs features_db get_feature_30_select) \<longrightarrow>
      exit_code (get_feature_30 (init fs)) \<noteq> 0) \<and>
   ((has_record fs features_db get_feature_242_select r \<or>
     no_record fs features_db get_feature_242_select) \<longrightarrow>
      exit_code (get_feature_242 (init fs)) = 0) \<and>
   ((source_unavailable fs features_db \<or>
     schema_mismatch fs features_db get_feature_242_select) \<longrightarrow>
      exit_code (get_feature_242 (init fs)) \<noteq> 0) \<and>
   exit_code (get_feature_74 api (init w)) =
     (case create_database api w of
        (Inl e, w1) \<Rightarrow> 1
      | (Inr made, w1) \<Rightarrow>
          (case query_first api 74 w1 of
             (Inl e, w2) \<Rightarrow> 1
           | (Inr None, w2) \<Rightarrow> 0
           | (Inr (Some f), w2) \<Rightarrow>
               (if feature_true api f
                then (case to_json api f of Inl e \<Rightarrow> 1 | Inr text \<Rightarrow> 0) else 0)))"
proof (intro conjI impI)
  assume "has_record fs query_feature_db query_feature_select r \<or>
          no_record fs query_feature_db query_feature_select"
  then have "\<not> source_unavailable fs query_feature_db \<and>
             \<not> schema_mismatch fs query_feature_db query_feature_select"
    using has_record_store_ok no_record_store_ok by blast
  then show "exit_code (query_feature (init fs)) = 0"
    by (simp add: query_feature_exit)
next
  assume "source_unavailable fs query_feature_db \<or>
          schema_mismatch fs query_feature_db query_feature_select"
  then show "exit_code (query_feature (init fs)) \<noteq> 0"
    by (simp add: query_feature_exit)
next
  assume "has_record fs features_db get_feature_30_select r \<or>
          no_record fs features_db get_feature_30_select"
  then have "\<not> source_unavailable fs features_db \<and>
             \<not> schema_mismatch fs features_db get_feature_30_select"
    using has_record_store_ok no_record_store_ok by blast
  then show "exit_code (get_feature_30 (init fs)) = 0"
    by (simp add: get_feature_30_exit)
next
  assume "source_unavailable fs features_db \<or>
          schema_mismatch fs features_db get_feature_30_select"
  then show "exit_code (get_feature_30 (init fs)) \<noteq> 0"
    by (simp add: get_feature_30_exit)
next
  assume "has_record fs features_db get_feature_242_select r \<or>
          no_record fs features_db get_feature_242_select"
  then have "\<not> source_unavailable fs features_db \<and>
             \<not> schema_mismatch fs features_db get_feature_242_select"
    using has_record_store_ok no_record_store_ok by blast
  then show "exit_code (get_feature_242 (init fs)) = 0"
    by (simp add: get_feature_242_exit)
next
  assume "source_unavailable fs features_db \<or>
          schema_mismatch fs features_db get_feature_242_select"
  then show "exit_code (get_feature_242 (init fs)) \<noteq> 0"
    by (simp add: get_feature_242_exit)
next
  show "exit_code (get_feature_74 api (init w)) =
     (case create_database api w of
        (Inl e, w1) \<Rightarrow> 1
      | (Inr made, w1) \<Rightarrow>
          (case query_first api 74 w1 of
             (Inl e, w2) \<Rightarrow> 1
           | (Inr None, w2) \<Rightarrow> 0
           | (Inr (Some f), w2) \<Rightarrow>
               (if feature_true api f
                then (case to_json api f of Inl e \<Rightarrow> 1 | Inr text \<Rightarrow> 0) else 0)))"
    by (simp add: get_feature_74_run split: prod.splits sum.splits option.splits)
qed

theorem exit_status_by_outcome_witness:
  "has_record (store_with example_table) query_feature_db query_feature_select example_row_242 \<and>
   exit_code (query_feature (init (store_with example_table))) = 0 \<and>
   has_record (store_with example_table) features_db get_feature_242_select example_row_242 \<and>
   exit_code (get_feature_242 (init (store_with example_table))) = 0 \<and>
   no_record (store_with empty_table) features_db get_feature_30_select \<and>
   exit_code (get_feature_30 (init (store_with empty_table))) = 0 \<and>
   source_unavailable no_store features_db \<and>
   exit_code (get_feature_30 (init no_store)) \<noteq> 0 \<and>
   source_unavailable unopenable_store query_feature_db \<and>
   exit_code (query_feature (init unopenable_store)) \<noteq> 0 \<and>
   schema_mismatch (store_with old_table) features_db get_feature_242_select \<and>
   exit_code (get_feature_242 (init (store_with old_table))) \<noteq> 0 \<and>
   has_record (store_with_Features capitals_table) features_db get_feature_30_select
     example_row_30 \<and>
   exit_code (get_feature_30 (init (store_with_Features capitals_table))) = 0 \<and>
   has_record (store_with text_id_table) features_db get_feature_30_select text_row_30 \<and>
   exit_code (get_feature_30 (init (store_with text_id_table))) = 0 \<and>
   schema_mismatch (pending_store_with old_table) query_feature_db query_feature_select \<and>
   exit_code (query_feature (init (pending_store_with old_table))) \<noteq> 0 \<and>
   exit_code (get_feature_74 example_api (init [30, 74])) = 0 \<and>
   exit_code (get_feature_74 example_api (init [30])) = 0 \<and>
   exit_code (get_feature_74 failing_api (init [30])) = 1 \<and>
   exit_code (get_feature_74 broken_api (init [30])) = 1"
proof -
  have h: "has_record (store_with example_table) query_feature_db query_feature_select example_row_242"
    "has_record (store_with example_table) features_db get_feature_242_select example_row_242"
    by (simp_all add: has_record_def example_defs)
  have n: "no_record (store_with empty_table) features_db get_feature_30_select"
    by (simp add: no_record_def example_defs)
  have u: "source_unavailable no_store features_db"
    "source_unavailable unopenable_store query_feature_db"
    by (simp_all add: source_unavailable_def example_defs)
  have m: "schema_mismatch (store_with old_table) features_db get_feature_242_select"
    by (simp add: schema_mismatch_def example_defs)
  have c: "has_record (store_with_Features capitals_table) features_db
      get_feature_30_select example_row_30"
    using capitals_are_resolved by simp
  have t: "has_record (store_with text_id_table) features_db get_feature_30_select
      text_row_30"
    using text_identifier_matches by simp
  have p: "schema_mismatch (pending_store_with old_table) query_feature_db
      query_feature_select"
    by (simp add: schema_mismatch_def example_defs)
  from h n u m c t p
    exit_status_by_outcome
      [of "store_with_Features capitals_table" example_row_30 example_api "[30, 74]"]
    exit_status_by_outcome [of "store_with text_id_table" text_row_30 example_api "[30, 74]"]
    exit_status_by_outcome
      [of "pending_store_with old_table" example_row_242 example_api "[30, 74]"]
    exit_status_by_outcome [of "store_with example_table" example_row_242 example_api "[30, 74]"]
    exit_status_by_outcome [of "store_with empty_table" example_row_242 example_api "[30]"]
    exit_status_by_outcome [of no_store example_row_242 failing_api "[30]"]
    exit_status_by_outcome [of unopenable_store example_row_242 broken_api "[30]"]
    exit_status_by_outcome [of "store_with old_table" example_row_242 broken_api "[30]"]
  show ?thesis
    by (simp add: example_api_def failing_api_def broken_api_def)
qed

section \<open>\<open>fix-imports.py\<close>: what is inserted and what is kept\<close>

text \<open>
  Claim C10, as stated: for every content of the file, every line of the original file
  appears unchanged and in its original order in the written output. It does not when
  the last line has no line end and a pattern occurs in it: the file whose only line is
  \<open>  Progress,\<close> is written back as the single line \<open>  Progress,  Box,\<close>, in which
  the line read is no longer a line.
\<close>

theorem unterminated_last_line_is_changed:
  "world (snd (fix_imports [newline] (init (tsx_file progress_pat)))) client_details =
     Text (progress_pat @ box_line) \<and>
   file_lines progress_pat = [progress_pat] \<and>
   file_lines (progress_pat @ box_line) = [progress_pat @ box_line] \<and>
   \<not> subseq (file_lines progress_pat) (file_lines (progress_pat @ box_line))"
proof -
  have at_path: "tsx_file progress_pat client_details = Text progress_pat"
    by (simp add: tsx_file_def)
  have "concat (insert_after_first dates_pat dropzone_line
          (insert_after_first progress_pat box_line [progress_pat])) = progress_pat @ box_line"
    by (simp add: tsx_defs)
  with fix_imports_run [of "tsx_file progress_pat" progress_pat "[newline]", OF at_path]
  have written: "world (snd (fix_imports [newline] (init (tsx_file progress_pat))))
      client_details = Text (progress_pat @ box_line)"
    by (simp add: file_lines_progress_pat write_newlines_posix)
  have "progress_pat \<noteq> progress_pat @ box_line"
    by (simp add: box_line_def)
  then have "\<not> subseq [progress_pat] [progress_pat @ box_line]"
    by (simp add: subseq_singleton_left)
  with written show ?thesis
    by (simp add: file_lines_progress_pat file_lines_progress_box)
qed

text \<open>
  Claim C10, amended. For every content of the file that decodes, with \<open>ls\<close> the lines
  read (line ends \<open>CR\<close> and \<open>CR LF\<close> read as a newline), \<open>lines1\<close> the list after the
  first loop and \<open>out\<close> the list after the second, which is what is written, each
  newline as the line end of the platform: each loop inserts its line once, after the
  first line its pattern occurs in, and nothing when it occurs in none; every line read
  is in \<open>out\<close>, unchanged and in the order read; \<open>out\<close> has one line more for each
  pattern that occurs; and the script prints \<open>Imports added successfully\<close> and ends
  normally in every case, also when neither pattern occurs and \<open>out\<close> is \<open>ls\<close>. When
  every line read ends with its newline, that is when the file is empty or ends with a
  line end, the written file read again has exactly the lines \<open>out\<close>.
\<close>

theorem fix_imports_inserts_once_and_keeps_lines_read:
  assumes "files client_details = Text content"
    and "ls = file_lines content"
    and "lines1 = insert_loop progress_pat box_line ls 0"
    and "out = insert_loop dates_pat dropzone_line lines1 0"
  shows "fst (fix_imports linesep (init files)) = Inr () \<and>
     stdout (snd (fix_imports linesep (init files))) =
       ''Imports added successfully'' @ [newline] \<and>
     world (snd (fix_imports linesep (init files))) =
       files(client_details := Text (write_newlines linesep (concat out))) \<and>
     lines1 = insert_after_first progress_pat box_line ls \<and>
     out = insert_after_first dates_pat dropzone_line lines1 \<and>
     subseq ls out \<and>
     length out =
       length ls + (if list_ex (contains progress_pat) ls then 1 else 0)
                 + (if list_ex (contains dates_pat) ls then 1 else 0) \<and>
     (\<not> list_ex (contains progress_pat) ls \<and> \<not> list_ex (contains dates_pat) ls \<longrightarrow> out = ls) \<and>
     (list_all terminated ls \<and> (linesep = [newline] \<or> linesep = [carriage_return, newline]) \<longrightarrow>
        file_lines (write_newlines linesep (concat out)) = out)"
proof -
  have l1: "lines1 = insert_after_first progress_pat box_line ls"
    using assms(3) by (simp add: insert_loop_all)
  have l2: "out = insert_after_first dates_pat dropzone_line lines1"
    using assms(4) by (simp add: insert_loop_all)
  have run: "fix_imports linesep (init files) =
    (Inr (),
     \<lparr>world = files(client_details := Text (write_newlines linesep (concat out))),
      stdout = ''Imports added successfully'' @ [newline], handles = [], trace = []\<rparr>)"
    using fix_imports_run [of files content linesep, OF assms(1)] l1 l2 assms(2) by simp
  have "subseq ls lines1"
    unfolding l1 by (rule subseq_insert_after_first)
  moreover have "subseq lines1 out"
    unfolding l2 by (rule subseq_insert_after_first)
  ultimately have sub: "subseq ls out"
    by (rule subseq_order.trans)
  have same: "list_ex (contains dates_pat) lines1 = list_ex (contains dates_pat) ls"
    unfolding l1 using box_line_not_dates by (rule list_ex_insert_after_first)
  have len: "length out =
       length ls + (if list_ex (contains progress_pat) ls then 1 else 0)
                 + (if list_ex (contains dates_pat) ls then 1 else 0)"
    unfolding l2 length_insert_after_first same
    unfolding l1 length_insert_after_first by simp
  have none: "out = ls"
    if "\<not> list_ex (contains progress_pat) ls \<and> \<not> list_ex (contains dates_pat) ls"
    using that l1 l2 by (simp add: insert_after_first_none)
  have again: "file_lines (write_newlines linesep (concat out)) = out"
    if "list_all terminated ls \<and> (linesep = [newline] \<or> linesep = [carriage_return, newline])"
  proof -
    from that assms(2) have "list_all terminated (file_lines content)"
      and "linesep = [newline] \<or> linesep = [carriage_return, newline]"
      by simp_all
    moreover from l1 l2 assms(2)
    have "out = insert_after_first dates_pat dropzone_line
                  (insert_after_first progress_pat box_line (file_lines content))"
      by simp
    ultimately show ?thesis by (rule file_lines_written)
  qed
  from run l1 l2 sub len none again show ?thesis
    by simp
qed

theorem fix_imports_inserts_once_and_keeps_lines_read_witness:
  "tsx_file example_tsx client_details = Text example_tsx \<and>
   list_all terminated (file_lines example_tsx) \<and>
   world (snd (fix_imports [newline] (init (tsx_file example_tsx)))) client_details =
     Text example_tsx_patched \<and>
   subseq (file_lines example_tsx) (file_lines example_tsx_patched) \<and>
   stdout (snd (fix_imports [newline] (init (tsx_file example_tsx)))) =
     ''Imports added successfully'' @ [newline] \<and>
   list_all terminated (file_lines windows_tsx) \<and>
   world (snd (fix_imports [carriage_return, newline] (init (tsx_file windows_tsx))))
     client_details = Text windows_tsx_patched \<and>
   subseq (file_lines windows_tsx) (file_lines windows_tsx_patched) \<and>
   \<not> list_ex (contains progress_pat) (file_lines plain_tsx) \<and>
   \<not> list_ex (contains dates_pat) (file_lines plain_tsx) \<and>
   world (snd (fix_imports [newline] (init (tsx_file plain_tsx)))) client_details =
     Text plain_tsx \<and>
   stdout (snd (fix_imports [newline] (init (tsx_file plain_tsx)))) =
     ''Imports added successfully'' @ [newline]"
proof -
  let ?out = "\<lambda>content. insert_loop dates_pat dropzone_line
                 (insert_loop progress_pat box_line (file_lines content) 0) 0"
  have at_path: "tsx_file content client_details = Text content" for content
    by (simp add: tsx_file_def)
  have t1: "list_all terminated (file_lines example_tsx)"
    unfolding file_lines_example_tsx by (simp add: terminated_def newline_def)
  have t2: "list_all terminated (file_lines windows_tsx)"
    unfolding file_lines_windows_tsx by (simp add: terminated_def newline_def)
  have n3: "\<not> list_ex (contains progress_pat) (file_lines plain_tsx)"
    "\<not> list_ex (contains dates_pat) (file_lines plain_tsx)"
    unfolding file_lines_plain_tsx by (simp_all add: tsx_defs)
  have e1: "write_newlines [newline] (concat (?out example_tsx)) = example_tsx_patched"
    unfolding insert_loop_all file_lines_example_tsx write_newlines_posix
    by (simp add: tsx_defs)
  have e2: "write_newlines [carriage_return, newline] (concat (?out windows_tsx)) =
      windows_tsx_patched"
    unfolding insert_loop_all file_lines_windows_tsx
    by (simp add: tsx_defs write_newlines_def)
  note w1 = fix_imports_inserts_once_and_keeps_lines_read
    [of "tsx_file example_tsx" example_tsx "file_lines example_tsx"
        "insert_loop progress_pat box_line (file_lines example_tsx) 0" "?out example_tsx"
        "[newline]", OF at_path refl refl refl]
  note w2 = fix_imports_inserts_once_and_keeps_lines_read
    [of "tsx_file windows_tsx" windows_tsx "file_lines windows_tsx"
        "insert_loop progress_pat box_line (file_lines windows_tsx) 0" "?out windows_tsx"
        "[carriage_return, newline]", OF at_path refl refl refl]
  note w3 = fix_imports_inserts_once_and_keeps_lines_read
    [of "tsx_file plain_tsx" plain_tsx "file_lines plain_tsx"
        "insert_loop progress_pat box_line (file_lines plain_tsx) 0" "?out plain_tsx"
        "[newline]", OF at_path refl refl refl]
  from w1 have r1:
    "world (snd (fix_imports [newline] (init (tsx_file example_tsx)))) =
       (tsx_file example_tsx)
         (client_details := Text (write_newlines [newline] (concat (?out example_tsx))))"
    and s1: "stdout (snd (fix_imports [newline] (init (tsx_file example_tsx)))) =
       ''Imports added successfully'' @ [newline]"
    and sub1: "subseq (file_lines example_tsx) (?out example_tsx)"
    and again1: "list_all terminated (file_lines example_tsx) \<and>
       ([newline] = [newline] \<or> [newline] = [carriage_return, newline]) \<longrightarrow>
       file_lines (write_newlines [newline] (concat (?out example_tsx))) = ?out example_tsx"
    by blast+
  from again1 t1 have "file_lines (write_newlines [newline] (concat (?out example_tsx))) =
      ?out example_tsx"
    by blast
  then have lines1: "file_lines example_tsx_patched = ?out example_tsx"
    unfolding e1 .
  have a1:
    "world (snd (fix_imports [newline] (init (tsx_file example_tsx)))) client_details =
       Text example_tsx_patched"
    "subseq (file_lines example_tsx) (file_lines example_tsx_patched)"
    using r1 sub1 unfolding e1 lines1 by simp_all
  from w2 have r2:
    "world (snd (fix_imports [carriage_return, newline] (init (tsx_file windows_tsx)))) =
       (tsx_file windows_tsx)
         (client_details :=
            Text (write_newlines [carriage_return, newline] (concat (?out windows_tsx))))"
    and sub2: "subseq (file_lines windows_tsx) (?out windows_tsx)"
    and again2: "list_all terminated (file_lines windows_tsx) \<and>
       ([carriage_return, newline] = [newline] \<or>
        [carriage_return, newline] = [carriage_return, newline]) \<longrightarrow>
       file_lines (write_newlines [carriage_return, newline] (concat (?out windows_tsx))) =
         ?out windows_tsx"
    by blast+
  from again2 t2
  have "file_lines (write_newlines [carriage_return, newline] (concat (?out windows_tsx))) =
      ?out windows_tsx"
    by blast
  then have lines2: "file_lines windows_tsx_patched = ?out windows_tsx"
    unfolding e2 .
  have a2:
    "world (snd (fix_imports [carriage_return, newline] (init (tsx_file windows_tsx))))
       client_details = Text windows_tsx_patched"
    "subseq (file_lines windows_tsx) (file_lines windows_tsx_patched)"
    using r2 sub2 unfolding e2 lines2 by simp_all
  from w3 have r3:
    "world (snd (fix_imports [newline] (init (tsx_file plain_tsx)))) =
       (tsx_file plain_tsx)
         (client_details := Text (write_newlines [newline] (concat (?out plain_tsx))))"
    and s3: "stdout (snd (fix_imports [newline] (init (tsx_file plain_tsx)))) =
       ''Imports added successfully'' @ [newline]"
    and none3: "\<not> list_ex (contains progress_pat) (file_lines plain_tsx) \<and>
       \<not> list_ex (contains dates_pat) (file_lines plain_tsx) \<longrightarrow>
       ?out plain_tsx = file_lines plain_tsx"
    by blast+
  from none3 n3 have same3: "?out plain_tsx = file_lines plain_tsx"
    by blast
  have "carriage_return \<notin> set plain_tsx"
    by (simp add: plain_tsx_def newline_def carriage_return_def)
  then have e3: "write_newlines [newline] (concat (file_lines plain_tsx)) = plain_tsx"
    by (simp add: write_newlines_posix file_lines_def concat_readlines universal_newlines_id)
  have a3:
    "world (snd (fix_imports [newline] (init (tsx_file plain_tsx)))) client_details =
       Text plain_tsx"
    using r3 unfolding same3 e3 by simp
  from at_path [of example_tsx] t1 a1 s1 t2 a2 n3 a3 s3 show ?thesis
    by simp
qed

end
